theory Spec2Isabelle
  imports Main "HOL-Library.Sublist"
begin

section \<open>The FASM eBook development server (docs/fasm-ebook/serve.py)\<close>

text \<open>
  The program is a script of 46 lines: a request handler class
  \<open>MyHTTPRequestHandler\<close> that overrides two methods of Python's
  \<open>http.server.SimpleHTTPRequestHandler\<close> (\<open>end_headers\<close> and \<open>guess_type\<close>), and a
  main block that prints four lines, binds a \<open>socketserver.TCPServer\<close> and serves
  until interrupted.

  Python strings are modelled as \<open>string\<close>; every literal of the script is ASCII.
\<close>

subsection \<open>String operations the script uses\<close>

text \<open>
  \<open>str.endswith(suffix)\<close>: the last \<open>len(suffix)\<close> characters of the string are the
  suffix. The comparison is character for character, so it is case-sensitive.
\<close>

definition endswith :: "string \<Rightarrow> string \<Rightarrow> bool" where
  "endswith s suf \<longleftrightarrow>
     length suf \<le> length s \<and> drop (length s - length suf) s = suf"

text \<open>
  \<open>str.lower()\<close> on ASCII text: the letters \<open>A\<close> to \<open>Z\<close> are mapped to \<open>a\<close> to \<open>z\<close>,
  every other character is kept.
\<close>

definition lower_char :: "char \<Rightarrow> char" where
  "lower_char c =
     (case map_of (zip ''ABCDEFGHIJKLMNOPQRSTUVWXYZ'' ''abcdefghijklmnopqrstuvwxyz'') c of
        Some d \<Rightarrow> d
      | None \<Rightarrow> c)"

definition lower :: "string \<Rightarrow> string" where
  "lower s = map lower_char s"

text \<open>
  Decimal formatting of an integer, as \<open>str(n)\<close>, \<open>f"{n}"\<close> and \<open>"%d" % n\<close> give it.
\<close>

definition digit_char :: "nat \<Rightarrow> char" where
  "digit_char d = ''0123456789'' ! (d mod 10)"

fun str_nat :: "nat \<Rightarrow> string" where
  "str_nat n = (if n < 10 then [digit_char n] else str_nat (n div 10) @ [digit_char (n mod 10)])"

declare str_nat.simps [simp del]

definition str_int :: "int \<Rightarrow> string" where
  "str_int i = (if i < 0 then ''-'' @ str_nat (nat (- i)) else str_nat (nat i))"

definition CRLF :: string where
  "CRLF = [CHR 0x0D, CHR 0x0A]"

definition LF :: char where
  "LF = CHR 0x0A"

subsection \<open>\<open>MyHTTPRequestHandler.guess_type\<close> (serve.py, lines 27 to 34)\<close>

text \<open>
  \<^verbatim>\<open>
  def guess_type(self, path):
      mimetype = super().guess_type(path)
      if path.endswith('.md'):
          return 'text/markdown'
      elif path.endswith('.json'):
          return 'application/json'
      return mimetype
  \<close>
  The inherited lookup \<open>super().guess_type\<close> (the extension table of
  \<open>SimpleHTTPRequestHandler\<close> and the \<open>mimetypes\<close> module behind it) is the parameter
  \<open>super_guess_type\<close>: the override is verified for every such lookup. The lookup is
  taken to return a string, as it does for every path \<open>send_head\<close> passes (an absolute
  file-system path); the override calls it first and only then tests the suffixes.
\<close>

definition guess_type :: "(string \<Rightarrow> string) \<Rightarrow> string \<Rightarrow> string" where
  "guess_type super_guess_type path =
     (let mimetype = super_guess_type path in
      if endswith path ''.md'' then ''text/markdown''
      else if endswith path ''.json'' then ''application/json''
      else mimetype)"

subsection \<open>The handler object and the inherited header primitives\<close>

text \<open>
  \<open>MyHTTPRequestHandler\<close> inherits its state and its header primitives from
  \<open>http.server.BaseHTTPRequestHandler\<close> (Python's standard library, not a file of the
  repository). The fields the script's code and the inherited response code read or
  write:
  \<^item> \<open>command\<close>, \<open>request_path\<close> (the attribute \<open>self.path\<close>), \<open>request_version\<close>,
    \<open>headers\<close>: the parsed request line and request headers;
  \<^item> \<open>headers_buffer\<close>: the list \<open>_headers_buffer\<close> of encoded header lines not yet
    written (a missing attribute is the empty list);
  \<^item> \<open>close_connection\<close>;
  \<^item> \<open>wfile\<close>: the bytes written to the client so far.
\<close>

record handler =
  command :: string
  request_path :: string
  request_version :: string
  headers :: "(string \<times> string) list"
  headers_buffer :: "string list"
  close_connection :: bool
  wfile :: string

text \<open>
  \<^verbatim>\<open>
  def send_header(self, keyword, value):
      if self.request_version != 'HTTP/0.9':
          if not hasattr(self, '_headers_buffer'):
              self._headers_buffer = []
          self._headers_buffer.append(
              ("%s: %s\r\n" % (keyword, value)).encode('latin-1', 'strict'))
      if keyword.lower() == 'connection':
          if value.lower() == 'close':
              self.close_connection = True
          elif value.lower() == 'keep-alive':
              self.close_connection = False

  def end_headers(self):                      # BaseHTTPRequestHandler.end_headers
      if self.request_version != 'HTTP/0.9':
          self._headers_buffer.append(b"\r\n")
          self.flush_headers()

  def flush_headers(self):
      if hasattr(self, '_headers_buffer'):
          self.wfile.write(b"".join(self._headers_buffer))
          self._headers_buffer = []
  \<close>
  The inherited \<open>end_headers\<close> is named \<open>super_end_headers\<close> here: it is what
  \<open>super().end_headers()\<close> calls in the script. (It is only ever called there, after
  three calls of \<open>send_header\<close>, so the buffer it appends to exists.) Header text is
  ASCII or Latin-1, so the \<open>encode\<close> calls do not fail.
\<close>

definition send_header :: "string \<Rightarrow> string \<Rightarrow> handler \<Rightarrow> handler" where
  "send_header keyword val self =
     (let self =
            (if request_version self \<noteq> ''HTTP/0.9''
             then self\<lparr>headers_buffer := headers_buffer self @ [keyword @ '': '' @ val @ CRLF]\<rparr>
             else self)
      in if lower keyword = ''connection'' then
           (if lower val = ''close'' then self\<lparr>close_connection := True\<rparr>
            else if lower val = ''keep-alive'' then self\<lparr>close_connection := False\<rparr>
            else self)
         else self)"

definition flush_headers :: "handler \<Rightarrow> handler" where
  "flush_headers self =
     self\<lparr>wfile := wfile self @ concat (headers_buffer self), headers_buffer := []\<rparr>"

definition super_end_headers :: "handler \<Rightarrow> handler" where
  "super_end_headers self =
     (if request_version self \<noteq> ''HTTP/0.9''
      then flush_headers (self\<lparr>headers_buffer := headers_buffer self @ [CRLF]\<rparr>)
      else self)"

subsection \<open>\<open>MyHTTPRequestHandler.end_headers\<close> (serve.py, lines 20 to 25)\<close>

text \<open>
  \<^verbatim>\<open>
  def end_headers(self):
      # Add CORS headers for local development
      self.send_header('Access-Control-Allow-Origin', '*')
      self.send_header('Access-Control-Allow-Methods', 'GET, POST, OPTIONS')
      self.send_header('Access-Control-Allow-Headers', 'Content-Type')
      super().end_headers()
  \<close>
\<close>

definition end_headers :: "handler \<Rightarrow> handler" where
  "end_headers self =
     (let self = send_header ''Access-Control-Allow-Origin'' ''*'' self;
          self = send_header ''Access-Control-Allow-Methods'' ''GET, POST, OPTIONS'' self;
          self = send_header ''Access-Control-Allow-Headers'' ''Content-Type'' self
      in super_end_headers self)"

text \<open>
  The three header lines as they stand on the wire, in the order the script sends them.
\<close>

definition cors_lines :: "string list" where
  "cors_lines =
     [''Access-Control-Allow-Origin: *'' @ CRLF,
      ''Access-Control-Allow-Methods: GET, POST, OPTIONS'' @ CRLF,
      ''Access-Control-Allow-Headers: Content-Type'' @ CRLF]"

subsection \<open>The inherited response code\<close>

text \<open>
  The responses themselves are produced by code the handler inherits from
  \<open>BaseHTTPRequestHandler\<close> and \<open>SimpleHTTPRequestHandler\<close>; the script's two methods are
  called from it by dynamic dispatch (\<open>self.end_headers()\<close>, \<open>self.guess_type(path)\<close>).
  The inherited methods are transcribed below so that whole responses can be stated.

  Some of the calls they make raise exceptions, and the inherited code catches only
  \<open>OSError\<close>, and only around \<open>os.listdir\<close> and \<open>open\<close>. An exception is an \<open>OSError\<close> (of
  any subclass, with its message), a \<open>KeyboardInterrupt\<close>, or any other exception
  (\<open>ValueError\<close>, \<open>OverflowError\<close>, \<open>UnicodeEncodeError\<close>, ...), held with its text.
\<close>

datatype exn = OSError string | KeyboardInterrupt | OtherException string

definition is_OSError :: "exn \<Rightarrow> bool" where
  "is_OSError e = (case e of OSError msg \<Rightarrow> True | _ \<Rightarrow> False)"

text \<open>
  What the inherited methods read from outside the handler object is collected in
  the record \<open>world\<close>:
  \<^item> \<open>responses\<close>: the table of reason phrases, \<open>code \<mapsto> (short, long)\<close>;
  \<^item> \<open>version_string\<close>;
  \<^item> \<open>fromtimestamp\<close> and \<open>date_time_string\<close>. The method \<open>date_time_string\<close> formats
    the current time, or the timestamp it is given:
    \<^verbatim>\<open>
    def date_time_string(self, timestamp=None):
        if timestamp is None:
            timestamp = time.time()
        return email.utils.formatdate(timestamp, usegmt=True)

    def formatdate(timeval=None, localtime=False, usegmt=False):    # email.utils
        ...
        dt = datetime.datetime.fromtimestamp(timeval, datetime.timezone.utc)
        ...
        return format_datetime(dt, usegmt)
    \<close>
    \<open>datetime.fromtimestamp\<close> raises (\<open>ValueError\<close>, \<open>OverflowError\<close> or \<open>OSError\<close>) for a
    time that does not lie in the years 1 to 9999: \<open>fromtimestamp t\<close> is that
    exception, \<open>None\<close> for a time in the range. \<open>date_time_string\<close> is the formatted
    string of a time in the range, of the current time for \<open>None\<close>; the current time
    lies in the range;
  \<^item> \<open>error_message\<close>: the encoded error page
    \<open>error_message_format % {code, message, explain}\<close> (message and explanation
    HTML-escaped);
  \<^item> \<open>translate_path\<close>; \<open>urlsplit_path\<close>, which is \<open>urlsplit(p).path\<close> or the exception
    \<open>urlsplit\<close> raises (\<open>ValueError\<close> for a malformed authority); and \<open>redirect_url\<close>
    (the request URL with \<open>/\<close> appended to its path);
  \<^item> the file system: \<open>isdir\<close>, \<open>isfile\<close> (\<open>os.path.isdir\<close> and \<open>os.path.isfile\<close>, which
    answer \<open>False\<close> where \<open>os.stat\<close> raises); \<open>open_rb\<close>, the file \<open>open(path, 'rb')\<close>
    returns or the exception it raises (an \<open>OSError\<close> for a file that is missing or
    may not be read, a \<open>ValueError\<close> for a path with a NUL character, a
    \<open>UnicodeEncodeError\<close> for a path the file system encoding cannot encode);
    \<open>listdir\<close>, the names \<open>os.listdir(path)\<close> returns or the exception it raises;
  \<^item> \<open>directory_page\<close>: the listing page \<open>list_directory\<close> builds for a directory,
    its names and the request path, encoded, or the exception the encoding raises
    (\<open>UnicodeEncodeError\<close> for a request path that unquotes to a lone surrogate);
  \<^item> \<open>filesystem_encoding\<close>;
  \<^item> \<open>parsedate_utc\<close>: the time an \<open>If-Modified-Since\<close> value denotes, in whole
    seconds, \<open>None\<close> where the value is ill-formed or names a zone other than UTC;
  \<^item> \<open>inherited_guess_type\<close>: the inherited extension lookup \<open>super().guess_type\<close>;
  \<^item> \<open>repr\<close>: Python's \<open>repr\<close> of a string.
  A file object is an open file with the size and the modification time (in whole
  seconds) that \<open>os.fstat\<close> reports for it and the bytes that are read from it.

  The transfer of bytes is taken to succeed: \<open>os.fstat\<close> and the reads on the open
  file, and the writes to the connection, do not fail, and \<open>wfile\<close> is the sequence of
  bytes handed to the connection. The logging calls (\<open>log_request\<close>, \<open>log_error\<close>)
  write to standard error and do not touch the handler's state; they are left out.
\<close>

record file_object =
  content :: string
  st_size :: nat
  st_mtime :: int

record world =
  responses :: "int \<Rightarrow> (string \<times> string) option"
  version_string :: string
  date_time_string :: "int option \<Rightarrow> string"
  fromtimestamp :: "int \<Rightarrow> exn option"
  error_message :: "int \<Rightarrow> string \<Rightarrow> string \<Rightarrow> string"
  translate_path :: "string \<Rightarrow> string"
  urlsplit_path :: "string \<Rightarrow> exn + string"
  redirect_url :: "string \<Rightarrow> string"
  isdir :: "string \<Rightarrow> bool"
  isfile :: "string \<Rightarrow> bool"
  open_rb :: "string \<Rightarrow> exn + file_object"
  listdir :: "string \<Rightarrow> exn + string list"
  directory_page :: "string \<Rightarrow> string list \<Rightarrow> string \<Rightarrow> exn + string"
  filesystem_encoding :: string
  parsedate_utc :: "string \<Rightarrow> int option"
  inherited_guess_type :: "string \<Rightarrow> string"
  repr :: "string \<Rightarrow> string"

definition protocol_version :: string where
  "protocol_version = ''HTTP/1.0''"

definition error_content_type :: string where
  "error_content_type = ''text/html;charset=utf-8''"

text \<open>
  \<^verbatim>\<open>
  def send_response_only(self, code, message=None):
      if self.request_version != 'HTTP/0.9':
          if message is None:
              if code in self.responses:
                  message = self.responses[code][0]
              else:
                  message = ''
          ...
          self._headers_buffer.append(("%s %d %s\r\n" %
                  (self.protocol_version, code, message)).encode('latin-1', 'strict'))

  def send_response(self, code, message=None):
      self.log_request(code)
      self.send_response_only(code, message)
      self.send_header('Server', self.version_string())
      self.send_header('Date', self.date_time_string())
  \<close>
\<close>

definition reason_phrase :: "world \<Rightarrow> int \<Rightarrow> string" where
  "reason_phrase W code = (case responses W code of Some r \<Rightarrow> fst r | None \<Rightarrow> [])"

definition status_line :: "int \<Rightarrow> string \<Rightarrow> string" where
  "status_line code message = protocol_version @ '' '' @ str_int code @ '' '' @ message @ CRLF"

definition send_response_only :: "world \<Rightarrow> int \<Rightarrow> string option \<Rightarrow> handler \<Rightarrow> handler" where
  "send_response_only W code message self =
     (if request_version self \<noteq> ''HTTP/0.9'' then
        (let message = (case message of None \<Rightarrow> reason_phrase W code | Some m \<Rightarrow> m)
         in self\<lparr>headers_buffer := headers_buffer self @ [status_line code message]\<rparr>)
      else self)"

definition send_response :: "world \<Rightarrow> int \<Rightarrow> string option \<Rightarrow> handler \<Rightarrow> handler" where
  "send_response W code message self =
     (let self = send_response_only W code message self;
          self = send_header ''Server'' (version_string W) self;
          self = send_header ''Date'' (date_time_string W None) self
      in self)"

text \<open>
  \<^verbatim>\<open>
  def send_error(self, code, message=None, explain=None):
      try:
          shortmsg, longmsg = self.responses[code]
      except KeyError:
          shortmsg, longmsg = '???', '???'
      if message is None:
          message = shortmsg
      if explain is None:
          explain = longmsg
      self.log_error("code %d, message %s", code, message)
      self.send_response(code, message)
      self.send_header('Connection', 'close')
      body = None
      if (code >= 200 and
          code not in (HTTPStatus.NO_CONTENT, HTTPStatus.RESET_CONTENT,
                       HTTPStatus.NOT_MODIFIED)):
          content = (self.error_message_format % {...})
          body = content.encode('UTF-8', 'replace')
          self.send_header("Content-Type", self.error_content_type)
          self.send_header('Content-Length', str(len(body)))
      self.end_headers()
      if self.command != 'HEAD' and body:
          self.wfile.write(body)
  \<close>
  \<open>self.end_headers()\<close> is the script's \<open>end_headers\<close>.
\<close>

definition send_error :: "world \<Rightarrow> int \<Rightarrow> string option \<Rightarrow> string option \<Rightarrow> handler \<Rightarrow> handler" where
  "send_error W code message explain self =
     (let (shortmsg, longmsg) =
            (case responses W code of Some r \<Rightarrow> r | None \<Rightarrow> (''???'', ''???''));
          message = (case message of None \<Rightarrow> shortmsg | Some m \<Rightarrow> m);
          explain = (case explain of None \<Rightarrow> longmsg | Some e \<Rightarrow> e);
          self = send_response W code (Some message) self;
          self = send_header ''Connection'' ''close'' self;
          body =
            (if code \<ge> 200 \<and> code \<noteq> 204 \<and> code \<noteq> 205 \<and> code \<noteq> 304
             then Some (error_message W code message explain) else None);
          self =
            (case body of
               Some b \<Rightarrow>
                 send_header ''Content-Length'' (str_int (int (length b)))
                   (send_header ''Content-Type'' error_content_type self)
             | None \<Rightarrow> self);
          self = end_headers self
      in case body of
           Some b \<Rightarrow>
             if command self \<noteq> ''HEAD'' \<and> b \<noteq> [] then self\<lparr>wfile := wfile self @ b\<rparr>
             else self
         | None \<Rightarrow> self)"

text \<open>
  The methods below can be left by an exception that nothing in the handler
  catches: they return the exception (\<open>Inl\<close>) or their value (\<open>Inr\<close>), and the
  handler as it is at that point. Headers that were sent before the exception are
  in the buffer; nothing of them has been written.
  \<^verbatim>\<open>
  def list_directory(self, path):
      try:
          list = os.listdir(path)
      except OSError:
          self.send_error(HTTPStatus.NOT_FOUND, "No permission to list directory")
          return None
      list.sort(key=lambda a: a.lower())
      r = []
      ...                                   # builds the page from list and self.path
      encoded = '\n'.join(r).encode(enc, 'surrogateescape')
      f = io.BytesIO(); f.write(encoded); f.seek(0)
      self.send_response(HTTPStatus.OK)
      self.send_header("Content-type", "text/html; charset=%s" % enc)
      self.send_header("Content-Length", str(len(encoded)))
      self.end_headers()
      return f
  \<close>
  The methods that return a file object to copy return its bytes here.
\<close>

definition list_directory ::
    "world \<Rightarrow> string \<Rightarrow> handler \<Rightarrow> (exn + string option) \<times> handler" where
  "list_directory W path self =
     (case listdir W path of
        Inl e \<Rightarrow>
          if is_OSError e then
            (Inr None, send_error W 404 (Some ''No permission to list directory'') None self)
          else (Inl e, self)
      | Inr names \<Rightarrow>
          (case directory_page W path names (request_path self) of
             Inl e \<Rightarrow> (Inl e, self)
           | Inr encoded \<Rightarrow>
               (let self = send_response W 200 None self;
                    self = send_header ''Content-type''
                             (''text/html; charset='' @ filesystem_encoding W) self;
                    self = send_header ''Content-Length'' (str_int (int (length encoded))) self;
                    self = end_headers self
                in (Inr (Some encoded), self))))"

text \<open>
  Request headers are looked up without regard to the case of the name
  (\<open>"If-Modified-Since" in self.headers\<close>, \<open>self.headers["If-Modified-Since"]\<close>).
\<close>

definition header_get :: "(string \<times> string) list \<Rightarrow> string \<Rightarrow> string option" where
  "header_get hs name = map_option snd (find (\<lambda>kv. lower (fst kv) = lower name) hs)"

text \<open>
  \<^verbatim>\<open>
  if ("If-Modified-Since" in self.headers
          and "If-None-Match" not in self.headers):
      try:
          ims = email.utils.parsedate_to_datetime(self.headers["If-Modified-Since"])
      except (TypeError, IndexError, OverflowError, ValueError):
          pass
      else:
          if ims.tzinfo is None:
              ims = ims.replace(tzinfo=datetime.timezone.utc)
          if ims.tzinfo is datetime.timezone.utc:
              last_modif = datetime.datetime.fromtimestamp(fs.st_mtime, datetime.timezone.utc)
              last_modif = last_modif.replace(microsecond=0)
              if last_modif <= ims:
                  ...                       # 304 Not Modified
  \<close>
  The call of \<open>datetime.fromtimestamp\<close> is outside the inner \<open>try\<close>: what it raises
  leaves \<open>send_head\<close>.
\<close>

definition not_modified :: "world \<Rightarrow> handler \<Rightarrow> file_object \<Rightarrow> exn + bool" where
  "not_modified W self f =
     (case header_get (headers self) ''If-Modified-Since'' of
        None \<Rightarrow> Inr False
      | Some v \<Rightarrow>
          if header_get (headers self) ''If-None-Match'' \<noteq> None then Inr False
          else
            (case parsedate_utc W v of
               None \<Rightarrow> Inr False
             | Some ims \<Rightarrow>
                 (case fromtimestamp W (st_mtime f) of
                    Some e \<Rightarrow> Inl e
                  | None \<Rightarrow> Inr (st_mtime f \<le> ims))))"

text \<open>
  \<open>os.path.join(path, index)\<close> for a relative \<open>index\<close>.
\<close>

definition os_path_join :: "string \<Rightarrow> string \<Rightarrow> string" where
  "os_path_join a b = (if a = [] \<or> endswith a ''/'' then a @ b else a @ ''/'' @ b)"

text \<open>
  \<open>SimpleHTTPRequestHandler.send_head\<close>, in two parts. The second part,
  \<open>send_head_file\<close>, is the code from \<open>ctype = self.guess_type(path)\<close> on:
  \<^verbatim>\<open>
  def send_head(self):
      path = self.translate_path(self.path)
      f = None
      if os.path.isdir(path):
          parts = urllib.parse.urlsplit(self.path)
          if not parts.path.endswith('/'):
              self.send_response(HTTPStatus.MOVED_PERMANENTLY)
              ...
              self.send_header("Location", new_url)
              self.send_header("Content-Length", "0")
              self.end_headers()
              return None
          for index in "index.html", "index.htm":
              index = os.path.join(path, index)
              if os.path.isfile(index):
                  path = index
                  break
          else:
              return self.list_directory(path)
      ctype = self.guess_type(path)
      if path.endswith("/"):
          self.send_error(HTTPStatus.NOT_FOUND, "File not found")
          return None
      try:
          f = open(path, 'rb')
      except OSError:
          self.send_error(HTTPStatus.NOT_FOUND, "File not found")
          return None
      try:
          fs = os.fstat(f.fileno())
          if (...):                         # If-Modified-Since, see above
              self.send_response(HTTPStatus.NOT_MODIFIED)
              self.end_headers()
              f.close()
              return None
          self.send_response(HTTPStatus.OK)
          self.send_header("Content-type", ctype)
          self.send_header("Content-Length", str(fs[6]))
          self.send_header("Last-Modified", self.date_time_string(fs.st_mtime))
          self.end_headers()
          return f
      except:
          f.close()
          raise
  \<close>
  \<open>self.guess_type\<close> is the script's \<open>guess_type\<close>, \<open>self.end_headers\<close> the script's
  \<open>end_headers\<close>. An exception of \<open>open\<close> that is not an \<open>OSError\<close> leaves \<open>send_head\<close>
  before anything is sent. \<open>self.date_time_string(fs.st_mtime)\<close> is evaluated after
  three headers are in the buffer and before \<open>Last-Modified\<close> is sent; where it
  raises, the file is closed and the exception leaves \<open>send_head\<close>.
\<close>

definition send_head_file ::
    "world \<Rightarrow> string \<Rightarrow> handler \<Rightarrow> (exn + string option) \<times> handler" where
  "send_head_file W path self =
     (let ctype = guess_type (inherited_guess_type W) path in
      if endswith path ''/'' then
        (Inr None, send_error W 404 (Some ''File not found'') None self)
      else
        (case open_rb W path of
           Inl e \<Rightarrow>
             if is_OSError e then
               (Inr None, send_error W 404 (Some ''File not found'') None self)
             else (Inl e, self)
         | Inr f \<Rightarrow>
             (case not_modified W self f of
                Inl e \<Rightarrow> (Inl e, self)
              | Inr unchanged \<Rightarrow>
                  if unchanged then
                    (let self = send_response W 304 None self;
                         self = end_headers self
                     in (Inr None, self))
                  else
                    (let self = send_response W 200 None self;
                         self = send_header ''Content-type'' ctype self;
                         self = send_header ''Content-Length'' (str_int (int (st_size f))) self
                     in case fromtimestamp W (st_mtime f) of
                          Some e \<Rightarrow> (Inl e, self)
                        | None \<Rightarrow>
                            (let self = send_header ''Last-Modified''
                                          (date_time_string W (Some (st_mtime f))) self;
                                 self = end_headers self
                             in (Inr (Some (content f)), self))))))"

definition send_head :: "world \<Rightarrow> handler \<Rightarrow> (exn + string option) \<times> handler" where
  "send_head W self =
     (let path = translate_path W (request_path self) in
      if isdir W path then
        (case urlsplit_path W (request_path self) of
           Inl e \<Rightarrow> (Inl e, self)
         | Inr parts_path \<Rightarrow>
             if \<not> endswith parts_path ''/'' then
               (let self = send_response W 301 None self;
                    self = send_header ''Location'' (redirect_url W (request_path self)) self;
                    self = send_header ''Content-Length'' ''0'' self;
                    self = end_headers self
                in (Inr None, self))
             else
               (case find (isfile W) (map (os_path_join path) [''index.html'', ''index.htm'']) of
                  Some index \<Rightarrow> send_head_file W index self
                | None \<Rightarrow> list_directory W path self))
      else send_head_file W path self)"

text \<open>
  \<^verbatim>\<open>
  def do_GET(self):
      f = self.send_head()
      if f:
          try:
              self.copyfile(f, self.wfile)
          finally:
              f.close()

  def do_HEAD(self):
      f = self.send_head()
      if f:
          f.close()
  \<close>
  They return the exception that left \<open>send_head\<close>, if any, and the handler.
\<close>

definition do_GET :: "world \<Rightarrow> handler \<Rightarrow> exn option \<times> handler" where
  "do_GET W self =
     (case send_head W self of
        (Inl e, self) \<Rightarrow> (Some e, self)
      | (Inr (Some f), self) \<Rightarrow> (None, self\<lparr>wfile := wfile self @ f\<rparr>)
      | (Inr None, self) \<Rightarrow> (None, self))"

definition do_HEAD :: "world \<Rightarrow> handler \<Rightarrow> exn option \<times> handler" where
  "do_HEAD W self =
     (case send_head W self of
        (Inl e, self) \<Rightarrow> (Some e, self)
      | (Inr f, self) \<Rightarrow> (None, self))"

text \<open>
  The end of \<open>BaseHTTPRequestHandler.handle_one_request\<close>, once the request line and
  the headers are parsed: the handler class has the methods \<open>do_GET\<close> and \<open>do_HEAD\<close>
  (the script adds no other \<open>do_\<close> method).
  \<^verbatim>\<open>
  mname = 'do_' + self.command
  if not hasattr(self, mname):
      self.send_error(HTTPStatus.NOT_IMPLEMENTED,
                      "Unsupported method (%r)" % self.command)
      return
  method = getattr(self, mname)
  method()
  \<close>
  An exception that leaves \<open>method()\<close> ends the handling of the request.
  \<open>handle_one_request\<close> catches \<open>TimeoutError\<close> only, and writes nothing when it does;
  any other exception leaves it too. In both cases the buffered headers are never
  written, the connection is closed, and the server goes on to the next connection.
\<close>

definition call_method :: "world \<Rightarrow> handler \<Rightarrow> exn option \<times> handler" where
  "call_method W self =
     (if command self = ''GET'' then do_GET W self
      else if command self = ''HEAD'' then do_HEAD W self
      else (None, send_error W 501
                    (Some (''Unsupported method ('' @ repr W (command self) @ '')'')) None self))"

subsection \<open>The script's top level (serve.py, lines 13 to 17 and 36 to 47)\<close>

text \<open>
  \<^verbatim>\<open>
  ebook_dir = Path(__file__).parent
  os.chdir(ebook_dir)

  PORT = 8000
  ...
  if __name__ == "__main__":
      print(f"Starting FASM eBook server on port {PORT}")
      print(f"Serving from: {ebook_dir}")
      print(f"Open your browser to: http://localhost:{PORT}")
      print("Press Ctrl+C to stop the server")

      try:
          with socketserver.TCPServer(("", PORT), MyHTTPRequestHandler) as httpd:
              httpd.serve_forever()
      except KeyboardInterrupt:
          print("\nServer stopped.")
          sys.exit(0)
  \<close>
  The script is run as a program (\<open>__name__ == "__main__"\<close>). Its run is a trace of the
  calls it makes to the outside and the status the process exits with (\<open>None\<close>: the
  process does not exit, it keeps serving). The events of a trace:
  \<^item> \<open>Chdir d\<close>: the call \<open>os.chdir(d)\<close>;
  \<^item> \<open>Print s\<close>: the call \<open>print(s)\<close>, which writes \<open>s\<close> and a newline to standard output;
  \<^item> \<open>Bind host port\<close>: the call \<open>TCPServer((host, port), MyHTTPRequestHandler)\<close>, which
    binds the socket to that address and listens;
  \<^item> \<open>ServeForever\<close>: the call \<open>httpd.serve_forever()\<close>;
  \<^item> \<open>ServerClose\<close>: the \<open>server_close()\<close> on leaving the \<open>with\<close> block;
  \<^item> \<open>Traceback e\<close>: the traceback of the uncaught exception \<open>e\<close> on standard error.

  What the outside answers is the record \<open>os_env\<close>:
  \<^item> \<open>script_file\<close> is \<open>__file__\<close>, and \<open>path_parent\<close> is \<open>Path(p).parent\<close> as a string;
  \<^item> \<open>argv\<close> and \<open>environ\<close> are the command line and the environment variables;
  \<^item> \<open>chdir d\<close> is \<open>None\<close> when \<open>os.chdir(d)\<close> succeeds and \<open>Some msg\<close> when it raises
    \<open>OSError\<close> (the directory is missing, is not a directory, or may not be entered);
  \<^item> \<open>tcp_server (host, port)\<close> is \<open>None\<close> when the \<open>TCPServer\<close> is constructed (the
    socket is bound and listening) and \<open>Some e\<close> when the constructor raises \<open>e\<close>;
  \<^item> \<open>serve_forever\<close> is how the call \<open>httpd.serve_forever()\<close> ends: it raises, it
    returns, or it never ends. An interrupt signal reaches the script as the
    exception \<open>KeyboardInterrupt\<close>.
  Request logging by \<open>http.server\<close> goes to standard error, not to standard output.
\<close>

datatype outcome = Raises exn | Returns | Blocks

datatype event =
    Chdir string
  | Print string
  | Bind string int
  | ServeForever
  | ServerClose
  | Traceback exn

record run =
  trace :: "event list"
  exit_status :: "int option"

record os_env =
  script_file :: string
  path_parent :: "string \<Rightarrow> string"
  argv :: "string list"
  environ :: "(string \<times> string) list"
  chdir :: "string \<Rightarrow> string option"
  tcp_server :: "string \<times> int \<Rightarrow> exn option"
  serve_forever :: outcome

definition ebook_dir :: "os_env \<Rightarrow> string" where
  "ebook_dir E = path_parent E (script_file E)"

definition PORT :: int where
  "PORT = 8000"

text \<open>
  An exception that nothing catches ends the process: the interpreter writes the
  traceback to standard error and exits with status 1.
\<close>

definition uncaught :: "event list \<Rightarrow> exn \<Rightarrow> run" where
  "uncaught t e = \<lparr>trace = t @ [Traceback e], exit_status = Some 1\<rparr>"

text \<open>
  The handler of the \<open>try\<close> statement: \<open>except KeyboardInterrupt\<close> prints and calls
  \<open>sys.exit(0)\<close>; every other exception is not caught.
\<close>

definition except_clause :: "event list \<Rightarrow> exn \<Rightarrow> run" where
  "except_clause t e =
     (case e of
        KeyboardInterrupt \<Rightarrow>
          \<lparr>trace = t @ [Print (LF # ''Server stopped.'')], exit_status = Some 0\<rparr>
      | _ \<Rightarrow> uncaught t e)"

text \<open>
  The \<open>try\<close> statement. Leaving the \<open>with\<close> block, normally or by an exception, closes
  the server (\<open>__exit__\<close> calls \<open>server_close\<close>); a constructor that raises never enters
  it.
\<close>

definition try_block :: "os_env \<Rightarrow> event list \<Rightarrow> run" where
  "try_block E t =
     (let t = t @ [Bind '''' PORT] in
      case tcp_server E ('''', PORT) of
        Some e \<Rightarrow> except_clause t e
      | None \<Rightarrow>
          (let t = t @ [ServeForever] in
           case serve_forever E of
             Blocks \<Rightarrow> \<lparr>trace = t, exit_status = None\<rparr>
           | Returns \<Rightarrow> \<lparr>trace = t @ [ServerClose], exit_status = Some 0\<rparr>
           | Raises e \<Rightarrow> except_clause (t @ [ServerClose]) e))"

definition main :: "os_env \<Rightarrow> run" where
  "main E =
     (let t = [Chdir (ebook_dir E)] in
      case chdir E (ebook_dir E) of
        Some msg \<Rightarrow> uncaught t (OSError msg)
      | None \<Rightarrow>
          (let t = t @ [Print (''Starting FASM eBook server on port '' @ str_int PORT)];
               t = t @ [Print (''Serving from: '' @ ebook_dir E)];
               t = t @ [Print (''Open your browser to: http://localhost:'' @ str_int PORT)];
               t = t @ [Print ''Press Ctrl+C to stop the server'']
           in try_block E t))"

text \<open>
  What a run writes to standard output: \<open>print(s)\<close> writes \<open>s\<close> and a newline.
  \<open>splitlines\<close> cuts the text into the lines a reader sees, each ended by a newline.
\<close>

definition printed :: "run \<Rightarrow> string list" where
  "printed r = concat (map (\<lambda>ev. case ev of Print s \<Rightarrow> [s] | _ \<Rightarrow> []) (trace r))"

definition stdout :: "run \<Rightarrow> string" where
  "stdout r = concat (map (\<lambda>s. s @ [LF]) (printed r))"

fun splitlines :: "string \<Rightarrow> string list" where
  "splitlines [] = []"
| "splitlines (c # cs) =
     (if c = LF then [] # splitlines cs
      else (case splitlines cs of
              [] \<Rightarrow> [[c]]
            | l # ls \<Rightarrow> (c # l) # ls))"

subsection \<open>Vocabulary for the properties and example inputs\<close>

text \<open>
  The file a request resolves to, read off \<open>send_head\<close>: \<open>resolved_path\<close> is the path
  \<open>send_head\<close> goes on to serve as a file (none where it redirects, lists a
  directory or is left by an exception of \<open>urlsplit\<close>), \<open>resolved_file\<close> the open file
  object (none where the path ends in \<open>/\<close> or \<open>open\<close> raises).
\<close>

definition resolved_path :: "world \<Rightarrow> handler \<Rightarrow> string option" where
  "resolved_path W self =
     (let path = translate_path W (request_path self) in
      if isdir W path then
        (case urlsplit_path W (request_path self) of
           Inl e \<Rightarrow> None
         | Inr parts_path \<Rightarrow>
             if \<not> endswith parts_path ''/'' then None
             else find (isfile W) (map (os_path_join path) [''index.html'', ''index.htm'']))
      else Some path)"

definition resolved_file :: "world \<Rightarrow> handler \<Rightarrow> file_object option" where
  "resolved_file W self =
     (case resolved_path W self of
        None \<Rightarrow> None
      | Some path \<Rightarrow>
          if endswith path ''/'' then None
          else (case open_rb W path of Inl e \<Rightarrow> None | Inr f \<Rightarrow> Some f))"

text \<open>
  Between the handler states \<open>self\<close> and \<open>self'\<close>, bytes were written to the client that
  hold the three CORS header lines followed by the blank line that ends a header
  block.
\<close>

abbreviation carries_cors :: "handler \<Rightarrow> handler \<Rightarrow> bool" where
  "carries_cors self self' \<equiv>
     (\<exists>head body. wfile self' = wfile self @ head @ concat cors_lines @ CRLF @ body)"

text \<open>
  A strict case variant of a suffix: the same letters, at least one in another case.
\<close>

definition is_case_variant :: "string \<Rightarrow> string \<Rightarrow> bool" where
  "is_case_variant v s \<longleftrightarrow> v \<noteq> s \<and> lower v = lower s"

text \<open>
  An example: the content root \<open>/srv/ebook\<close> holds two files and nothing else:
  \<open>README.md\<close> (the seven bytes \<open># Hello\<close>, last modified on 2 November 2026, 08:00:00
  GMT) and \<open>future.md\<close> (the seven bytes \<open># Later\<close>), whose modification time was set
  to the first second of the year 10000, which \<open>datetime.fromtimestamp\<close> refuses with
  \<open>ValueError: year 10000 is out of range\<close>. The request path \<open>/%00\<close> unquotes to a
  file name that is a NUL character, which \<open>open\<close> refuses with
  \<open>ValueError: embedded null byte\<close>.
\<close>

definition example_world :: world where
  "example_world =
     \<lparr>responses =
        (\<lambda>code. if code = 200 then Some (''OK'', ''Request fulfilled, document follows'')
               else if code = 304 then
                 Some (''Not Modified'', ''Document has not changed since given time'')
               else if code = 404 then Some (''Not Found'', ''Nothing matches the given URI'')
               else None),
      version_string = ''SimpleHTTP/0.6 Python/3.11.10'',
      date_time_string =
        (\<lambda>t. case t of
               None \<Rightarrow> ''Tue, 03 Nov 2026 12:00:00 GMT''
             | Some _ \<Rightarrow> ''Mon, 02 Nov 2026 08:00:00 GMT''),
      fromtimestamp =
        (\<lambda>t. if t = 253402300800
             then Some (OtherException ''ValueError: year 10000 is out of range'')
             else None),
      error_message = (\<lambda>code message explain. ''<h1>Error response</h1>''),
      translate_path =
        (\<lambda>p. if p = ''/%00'' then ''/srv/ebook/'' @ [CHR 0x00] else ''/srv/ebook'' @ p),
      urlsplit_path = (\<lambda>p. Inr p),
      redirect_url = (\<lambda>p. p @ ''/''),
      isdir = (\<lambda>p. p = ''/srv/ebook/''),
      isfile = (\<lambda>p. p = ''/srv/ebook/README.md'' \<or> p = ''/srv/ebook/future.md''),
      open_rb =
        (\<lambda>p. if p = ''/srv/ebook/README.md''
             then Inr \<lparr>content = ''# Hello'', st_size = 7, st_mtime = 1793606400\<rparr>
             else if p = ''/srv/ebook/future.md''
             then Inr \<lparr>content = ''# Later'', st_size = 7, st_mtime = 253402300800\<rparr>
             else if CHR 0x00 \<in> set p
             then Inl (OtherException ''ValueError: embedded null byte'')
             else Inl (OSError ''[Errno 2] No such file or directory'')),
      listdir = (\<lambda>d. Inr [''README.md'', ''future.md'']),
      directory_page =
        (\<lambda>d names p. Inr ''<ul><li>README.md</li><li>future.md</li></ul>''),
      filesystem_encoding = ''utf-8'',
      parsedate_utc =
        (\<lambda>v. if v = ''Tue, 03 Nov 2026 00:00:00 GMT'' then Some 1793664000 else None),
      inherited_guess_type = (\<lambda>p. ''application/octet-stream''),
      repr = (\<lambda>s. [CHR 0x27] @ s @ [CHR 0x27])\<rparr>"

definition example_request :: "string \<Rightarrow> string \<Rightarrow> (string \<times> string) list \<Rightarrow> handler" where
  "example_request method p hs =
     \<lparr>command = method, request_path = p, request_version = ''HTTP/1.1'', headers = hs,
      headers_buffer = [], close_connection = True, wfile = []\<rparr>"

text \<open>
  A \<open>GET\<close> request sent the way HTTP/0.9 clients send it, as the request line
  \<open>GET /path\<close> without a version: the parser leaves \<open>request_version\<close> at its default
  \<open>HTTP/0.9\<close>.
\<close>

definition example_request_http09 :: "string \<Rightarrow> handler" where
  "example_request_http09 p = (example_request ''GET'' p [])\<lparr>request_version := ''HTTP/0.9''\<rparr>"

text \<open>
  Observations of a run: the addresses it binds, the directories it changes into,
  and whether it failed to start (it exited with a nonzero status without ever
  serving).
\<close>

definition binds :: "run \<Rightarrow> (string \<times> int) list" where
  "binds r = concat (map (\<lambda>ev. case ev of Bind h p \<Rightarrow> [(h, p)] | _ \<Rightarrow> []) (trace r))"

definition chdirs :: "run \<Rightarrow> string list" where
  "chdirs r = concat (map (\<lambda>ev. case ev of Chdir d \<Rightarrow> [d] | _ \<Rightarrow> []) (trace r))"

definition failed_to_start :: "run \<Rightarrow> bool" where
  "failed_to_start r \<longleftrightarrow>
     ServeForever \<notin> set (trace r) \<and>
     (case exit_status r of Some status \<Rightarrow> status \<noteq> 0 | None \<Rightarrow> False)"



text \<open>
  An example environment of the process: the script is \<open>/srv/ebook/serve.py\<close>, the
  directory can be entered, the port can be bound, and the server runs until the
  user interrupts it.
\<close>

definition example_env :: os_env where
  "example_env =
     \<lparr>script_file = ''/srv/ebook/serve.py'',
      path_parent = (\<lambda>p. ''/srv/ebook''),
      argv = [''serve.py''],
      environ = [],
      chdir = (\<lambda>d. None),
      tcp_server = (\<lambda>a. None),
      serve_forever = Raises KeyboardInterrupt\<rparr>"




section \<open>Properties\<close>

subsection \<open>Suffix tests and letter case\<close>

lemma endswith_iff_suffix: "endswith s t \<longleftrightarrow> suffix t s"
proof
  assume "endswith s t"
  then have "s = take (length s - length t) s @ t"
    by (metis append_take_drop_id endswith_def)
  then show "suffix t s"
    by (metis suffixI)
next
  assume "suffix t s"
  then obtain p where "s = p @ t"
    by (auto simp: suffix_def)
  then show "endswith s t"
    by (simp add: endswith_def)
qed

lemma endswith_same_length:
  "endswith s t \<Longrightarrow> endswith s u \<Longrightarrow> length t = length u \<Longrightarrow> t = u"
  by (simp add: endswith_def)

lemma endswith_longer:
  assumes "endswith s t" and "endswith s u" and "length u \<le> length t"
  shows "endswith t u"
proof -
  from assms(1,2) have "suffix t s" and "suffix u s"
    by (simp_all add: endswith_iff_suffix)
  with assms(3) have "suffix u t"
    by (metis suffix_length_suffix)
  then show ?thesis
    by (simp add: endswith_iff_suffix)
qed

text \<open>No path ends in both suffixes, so the order of the two tests cannot be seen.\<close>

lemma md_not_json: "endswith p ''.md'' \<Longrightarrow> \<not> endswith p ''.json''"
proof
  assume "endswith p ''.md''" and "endswith p ''.json''"
  then have "endswith ''.json'' ''.md''"
    by (auto intro: endswith_longer)
  then show False
    by (simp add: endswith_def)
qed

lemma length_lower: "length (lower s) = length s"
  by (simp add: lower_def)

lemma drop_lower: "drop n (lower s) = lower (drop n s)"
  by (simp add: lower_def drop_map)

lemma lower_md: "lower ''.md'' = ''.md''"
  by (simp add: lower_def lower_char_def)

lemma lower_json: "lower ''.json'' = ''.json''"
  by (simp add: lower_def lower_char_def)

lemma variant_length: "is_case_variant v s \<Longrightarrow> length v = length s"
  by (metis is_case_variant_def length_lower)

lemma variant_not_same:
  assumes "is_case_variant v s" and "endswith p v"
  shows "\<not> endswith p s"
proof
  assume "endswith p s"
  with assms(2) variant_length [OF assms(1)] have "v = s"
    by (metis endswith_same_length)
  with assms(1) show False
    by (simp add: is_case_variant_def)
qed

lemma variant_md_not_json:
  assumes "is_case_variant v ''.md''" and "endswith p v"
  shows "\<not> endswith p ''.json''"
proof
  assume j: "endswith p ''.json''"
  from variant_length [OF assms(1)] have len: "length v = 3"
    by simp
  with j assms(2) have "endswith ''.json'' v"
    by (auto intro: endswith_longer)
  with len have "v = ''son''"
    by (simp add: endswith_def)
  with assms(1) show False
    by (simp add: is_case_variant_def lower_def lower_char_def)
qed

lemma variant_json_not_md:
  assumes "is_case_variant v ''.json''" and "endswith p v"
  shows "\<not> endswith p ''.md''"
proof
  assume m: "endswith p ''.md''"
  from assms(1) have lv: "lower v = ''.json''"
    by (simp add: is_case_variant_def lower_json)
  from variant_length [OF assms(1)] have len: "length v = 5"
    by simp
  with m assms(2) have "endswith v ''.md''"
    by (auto intro: endswith_longer)
  with len have "drop 2 v = ''.md''"
    by (simp add: endswith_def)
  then have "drop 2 (lower v) = lower ''.md''"
    by (simp add: drop_lower)
  with lv show False
    by (simp add: lower_md)
qed

subsection \<open>Decimal formatting\<close>

lemma str_nat_small: "n < 10 \<Longrightarrow> str_nat n = [digit_char n]"
  by (simp add: str_nat.simps)

lemma str_nat_big: "\<not> n < 10 \<Longrightarrow> str_nat n = str_nat (n div 10) @ [digit_char (n mod 10)]"
  by (subst str_nat.simps) simp

lemmas str_int_eval = str_int_def str_nat_small str_nat_big digit_char_def

lemma str_int_PORT: "str_int PORT = ''8000''"
  by (simp add: PORT_def str_int_eval)

subsection \<open>Content types\<close>

text \<open>
  C2. For every path that ends in \<open>.md\<close>, the content type \<open>guess_type\<close> chooses is
  exactly \<open>text/markdown\<close>, whatever the inherited extension lookup returns for the
  path. The path is the argument of \<open>guess_type\<close>: \<open>send_head\<close> passes the translated
  request path of a file it is about to serve.
\<close>

theorem guess_type_md:
  "endswith path ''.md'' \<Longrightarrow> guess_type super_guess_type path = ''text/markdown''"
  by (simp add: guess_type_def)

theorem guess_type_md_witness:
  "endswith ''/srv/ebook/README.md'' ''.md'' \<and>
   guess_type (\<lambda>p. ''application/octet-stream'') ''/srv/ebook/README.md'' = ''text/markdown''"
proof -
  have md: "endswith ''/srv/ebook/README.md'' ''.md''"
    by (simp add: endswith_def)
  from md guess_type_md [OF md] show ?thesis
    by simp
qed

text \<open>
  C3. For every path that ends in \<open>.json\<close>, the content type \<open>guess_type\<close> chooses is
  exactly \<open>application/json\<close>, whatever the inherited lookup returns.
\<close>

theorem guess_type_json:
  "endswith path ''.json'' \<Longrightarrow> guess_type super_guess_type path = ''application/json''"
proof -
  assume j: "endswith path ''.json''"
  then have "\<not> endswith path ''.md''"
    using md_not_json by blast
  with j show ?thesis
    by (simp add: guess_type_def)
qed

theorem guess_type_json_witness:
  "endswith ''/srv/ebook/data.json'' ''.json'' \<and>
   guess_type (\<lambda>p. ''text/plain'') ''/srv/ebook/data.json'' = ''application/json''"
proof -
  have j: "endswith ''/srv/ebook/data.json'' ''.json''"
    by (simp add: endswith_def)
  from j guess_type_json [OF j] show ?thesis
    by simp
qed

text \<open>
  C4. For every path that ends in neither \<open>.md\<close> nor \<open>.json\<close>, the content type
  \<open>guess_type\<close> chooses is the result of the inherited extension lookup for that path,
  unchanged.
\<close>

theorem guess_type_other:
  "\<not> endswith path ''.md'' \<Longrightarrow> \<not> endswith path ''.json'' \<Longrightarrow>
   guess_type super_guess_type path = super_guess_type path"
  by (simp add: guess_type_def)

theorem guess_type_other_witness:
  "\<not> endswith ''/srv/ebook/index.html'' ''.md'' \<and>
   \<not> endswith ''/srv/ebook/index.html'' ''.json'' \<and>
   guess_type (\<lambda>p. if endswith p ''.html'' then ''text/html'' else ''application/octet-stream'')
     ''/srv/ebook/index.html'' = ''text/html''"
proof -
  have a: "\<not> endswith ''/srv/ebook/index.html'' ''.md''"
    and b: "\<not> endswith ''/srv/ebook/index.html'' ''.json''"
    and c: "endswith ''/srv/ebook/index.html'' ''.html''"
    by (simp_all add: endswith_def)
  from a b c guess_type_other [OF a b] show ?thesis
    by simp
qed

text \<open>
  C10. The two suffix tests are case-sensitive: for every path that ends in a strict
  case variant of \<open>.md\<close> or of \<open>.json\<close> (\<open>.MD\<close>, \<open>.Md\<close>, \<open>.Json\<close>, \<open>.JSON\<close>, ...), neither
  override fires and \<open>guess_type\<close> returns the inherited lookup's result. And a path
  that ends in \<open>.md\<close> is never given \<open>application/json\<close>: the \<open>.md\<close> test comes first
  and returns.
\<close>

theorem guess_type_case_sensitive:
  "(endswith p v \<and> (is_case_variant v ''.md'' \<or> is_case_variant v ''.json'') \<longrightarrow>
      guess_type super_guess_type p = super_guess_type p) \<and>
   (endswith q ''.md'' \<longrightarrow> guess_type super_guess_type q \<noteq> ''application/json'')"
proof (intro conjI impI)
  assume a: "endswith p v \<and> (is_case_variant v ''.md'' \<or> is_case_variant v ''.json'')"
  then have e: "endswith p v"
    by simp
  from a have "\<not> endswith p ''.md'' \<and> \<not> endswith p ''.json''"
  proof (elim conjE disjE)
    assume "is_case_variant v ''.md''"
    with e show ?thesis
      by (simp add: variant_not_same variant_md_not_json)
  next
    assume "is_case_variant v ''.json''"
    with e show ?thesis
      by (simp add: variant_not_same variant_json_not_md)
  qed
  then show "guess_type super_guess_type p = super_guess_type p"
    by (simp add: guess_type_def)
next
  assume "endswith q ''.md''"
  then show "guess_type super_guess_type q \<noteq> ''application/json''"
    by (simp add: guess_type_def)
qed

theorem guess_type_case_sensitive_witness:
  "endswith ''/srv/ebook/NOTES.MD'' ''.MD'' \<and> is_case_variant ''.MD'' ''.md'' \<and>
   guess_type (\<lambda>p. ''application/octet-stream'') ''/srv/ebook/NOTES.MD'' =
     ''application/octet-stream'' \<and>
   endswith ''/srv/ebook/data.Json'' ''.Json'' \<and> is_case_variant ''.Json'' ''.json'' \<and>
   guess_type (\<lambda>p. ''application/octet-stream'') ''/srv/ebook/data.Json'' =
     ''application/octet-stream'' \<and>
   endswith ''/srv/ebook/README.md'' ''.md'' \<and>
   guess_type (\<lambda>p. ''application/json'') ''/srv/ebook/README.md'' \<noteq> ''application/json''"
proof -
  have a: "endswith ''/srv/ebook/NOTES.MD'' ''.MD''" "is_case_variant ''.MD'' ''.md''"
    and b: "endswith ''/srv/ebook/data.Json'' ''.Json''" "is_case_variant ''.Json'' ''.json''"
    and c: "endswith ''/srv/ebook/README.md'' ''.md''"
    by (simp_all add: endswith_def is_case_variant_def lower_def lower_char_def)
  from a b c
    guess_type_case_sensitive [of "''/srv/ebook/NOTES.MD''" "''.MD''"
      "\<lambda>p. ''application/octet-stream''" "''/srv/ebook/README.md''"]
    guess_type_case_sensitive [of "''/srv/ebook/data.Json''" "''.Json''"
      "\<lambda>p. ''application/octet-stream''" "''/srv/ebook/README.md''"]
    guess_type_case_sensitive [of "''/srv/ebook/NOTES.MD''" "''.MD''"
      "\<lambda>p. ''application/json''" "''/srv/ebook/README.md''"]
  show ?thesis
    by simp
qed

subsection \<open>The header primitives\<close>

lemma send_header_buffer:
  "request_version self \<noteq> ''HTTP/0.9'' \<Longrightarrow>
   headers_buffer (send_header k v self) = headers_buffer self @ [k @ '': '' @ v @ CRLF]"
  by (simp add: send_header_def Let_def)

lemma send_header_version [simp]:
  "request_version (send_header k v self) = request_version self"
  by (simp add: send_header_def Let_def)

lemma send_header_wfile [simp]: "wfile (send_header k v self) = wfile self"
  by (simp add: send_header_def Let_def)

lemma send_header_command [simp]: "command (send_header k v self) = command self"
  by (simp add: send_header_def Let_def)

lemma send_response_version [simp]:
  "request_version (send_response W c m self) = request_version self"
  by (simp add: send_response_def send_response_only_def Let_def)

lemma send_response_wfile [simp]: "wfile (send_response W c m self) = wfile self"
  by (simp add: send_response_def send_response_only_def Let_def)

lemma send_response_command [simp]: "command (send_response W c m self) = command self"
  by (simp add: send_response_def send_response_only_def Let_def)

lemma send_response_buffer:
  "request_version self \<noteq> ''HTTP/0.9'' \<Longrightarrow>
   headers_buffer (send_response W c m self) =
     headers_buffer self @
       [status_line c (case m of None \<Rightarrow> reason_phrase W c | Some x \<Rightarrow> x),
        ''Server: '' @ version_string W @ CRLF,
        ''Date: '' @ date_time_string W None @ CRLF]"
  by (simp add: send_response_def send_response_only_def Let_def send_header_buffer)

lemma end_headers_writes:
  "request_version self \<noteq> ''HTTP/0.9'' \<Longrightarrow>
   wfile (end_headers self) = wfile self @ concat (headers_buffer self @ cors_lines @ [CRLF])"
  by (simp add: end_headers_def Let_def super_end_headers_def flush_headers_def
      send_header_buffer cors_lines_def)

lemma end_headers_buffer:
  "request_version self \<noteq> ''HTTP/0.9'' \<Longrightarrow> headers_buffer (end_headers self) = []"
  by (simp add: end_headers_def Let_def super_end_headers_def flush_headers_def)

lemma end_headers_version [simp]:
  "request_version (end_headers self) = request_version self"
  by (simp add: end_headers_def Let_def super_end_headers_def flush_headers_def)

lemma end_headers_command [simp]: "command (end_headers self) = command self"
  by (simp add: end_headers_def Let_def super_end_headers_def flush_headers_def)

text \<open>
  For a request of version \<open>HTTP/0.9\<close> (a request line without a version, or one the
  parser rejected before it read the version) the inherited primitives buffer and
  write nothing: such a response has no status line and no header block at all, and
  \<open>end_headers\<close> leaves the handler as it was.
\<close>

lemma end_headers_http09:
  "request_version self = ''HTTP/0.9'' \<Longrightarrow> end_headers self = self"
  by (simp add: end_headers_def Let_def super_end_headers_def send_header_def
      lower_def lower_char_def)

subsection \<open>Responses to requests with a version carry the CORS headers\<close>

lemma end_headers_carries:
  assumes "request_version s \<noteq> ''HTTP/0.9''" and "wfile s = wfile self"
  shows "carries_cors self (end_headers s)"
proof -
  have "wfile (end_headers s) =
          wfile self @ concat (headers_buffer s) @ concat cors_lines @ CRLF @ []"
    using end_headers_writes [OF assms(1)] assms(2) by simp
  then show ?thesis
    by blast
qed

lemma carries_write:
  assumes "carries_cors self s"
  shows "carries_cors self (s\<lparr>wfile := wfile s @ b\<rparr>)"
proof -
  from assms obtain head body
    where "wfile s = wfile self @ head @ concat cors_lines @ CRLF @ body"
    by blast
  then have "wfile (s\<lparr>wfile := wfile s @ b\<rparr>) =
               wfile self @ head @ concat cors_lines @ CRLF @ (body @ b)"
    by simp
  then show ?thesis
    by blast
qed

lemma send_error_carries:
  assumes v: "request_version self \<noteq> ''HTTP/0.9''"
  shows "carries_cors self (send_error W code message explain self)"
proof -
  define sl where "sl = (case responses W code of Some r \<Rightarrow> r | None \<Rightarrow> (''???'', ''???''))"
  define msg where "msg = (case message of None \<Rightarrow> fst sl | Some m \<Rightarrow> m)"
  define ex where "ex = (case explain of None \<Rightarrow> snd sl | Some e \<Rightarrow> e)"
  define body where "body =
    (if code \<ge> 200 \<and> code \<noteq> 204 \<and> code \<noteq> 205 \<and> code \<noteq> 304
     then Some (error_message W code msg ex) else None)"
  define s1 where
    "s1 = send_header ''Connection'' ''close'' (send_response W code (Some msg) self)"
  define s2 where "s2 =
    (case body of
       Some b \<Rightarrow> send_header ''Content-Length'' (str_int (int (length b)))
                   (send_header ''Content-Type'' error_content_type s1)
     | None \<Rightarrow> s1)"
  have eq: "send_error W code message explain self =
      (case body of
         Some b \<Rightarrow> if command (end_headers s2) \<noteq> ''HEAD'' \<and> b \<noteq> []
                   then (end_headers s2)\<lparr>wfile := wfile (end_headers s2) @ b\<rparr>
                   else end_headers s2
       | None \<Rightarrow> end_headers s2)"
    unfolding send_error_def sl_def msg_def ex_def body_def s1_def s2_def
    by (simp add: Let_def case_prod_beta)
  have "request_version s2 \<noteq> ''HTTP/0.9''" and "wfile s2 = wfile self"
    using v by (simp_all add: s2_def s1_def split: option.splits)
  then have c: "carries_cors self (end_headers s2)"
    by (rule end_headers_carries)
  show ?thesis
    unfolding eq using c carries_write [OF c] by (simp split: option.splits)
qed

text \<open>
  The bytes of an error response with a body (every code from 200 on but 204, 205
  and 304), for a request with a version.
\<close>

lemma send_error_written:
  assumes v: "request_version self \<noteq> ''HTTP/0.9''"
    and msg: "msg = (case message of
                       None \<Rightarrow> (case responses W code of Some r \<Rightarrow> fst r | None \<Rightarrow> ''???'')
                     | Some m \<Rightarrow> m)"
    and ex: "ex = (case explain of
                     None \<Rightarrow> (case responses W code of Some r \<Rightarrow> snd r | None \<Rightarrow> ''???'')
                   | Some e \<Rightarrow> e)"
    and c: "code \<ge> 200" "code \<noteq> 204" "code \<noteq> 205" "code \<noteq> 304"
    and body: "body = error_message W code msg ex"
  shows "wfile (send_error W code message explain self) =
           wfile self @ concat (headers_buffer self) @
           status_line code msg @
           ''Server: '' @ version_string W @ CRLF @
           ''Date: '' @ date_time_string W None @ CRLF @
           ''Connection: close'' @ CRLF @
           ''Content-Type: '' @ error_content_type @ CRLF @
           ''Content-Length: '' @ str_int (int (length body)) @ CRLF @
           concat cors_lines @ CRLF @
           (if command self \<noteq> ''HEAD'' then body else [])"
proof -
  define s1 where
    "s1 = send_header ''Connection'' ''close'' (send_response W code (Some msg) self)"
  define s2 where
    "s2 = send_header ''Content-Length'' (str_int (int (length body)))
            (send_header ''Content-Type'' error_content_type s1)"
  have m': "msg = (case message of
                     None \<Rightarrow> fst (case responses W code of Some r \<Rightarrow> r | None \<Rightarrow> (''???'', ''???''))
                   | Some m \<Rightarrow> m)"
    and e': "ex = (case explain of
                     None \<Rightarrow> snd (case responses W code of Some r \<Rightarrow> r | None \<Rightarrow> (''???'', ''???''))
                   | Some e \<Rightarrow> e)"
    by (simp_all add: msg ex split: option.splits)
  have eq: "send_error W code message explain self =
      (if command (end_headers s2) \<noteq> ''HEAD'' \<and> body \<noteq> []
       then (end_headers s2)\<lparr>wfile := wfile (end_headers s2) @ body\<rparr>
       else end_headers s2)"
    unfolding send_error_def s1_def s2_def body m' e' using c
    by (simp add: Let_def case_prod_beta)
  have v2: "request_version s2 \<noteq> ''HTTP/0.9''" and w2: "wfile s2 = wfile self"
    using v by (simp_all add: s2_def s1_def)
  have b2: "headers_buffer s2 =
      headers_buffer self @
        [status_line code msg,
         ''Server: '' @ version_string W @ CRLF,
         ''Date: '' @ date_time_string W None @ CRLF,
         ''Connection: close'' @ CRLF,
         ''Content-Type: '' @ error_content_type @ CRLF,
         ''Content-Length: '' @ str_int (int (length body)) @ CRLF]"
    using v by (simp add: s2_def s1_def send_header_buffer send_response_buffer)
  have c2: "command s2 = command self"
    by (simp add: s2_def s1_def)
  show ?thesis
    unfolding eq by (simp add: end_headers_writes [OF v2] w2 b2 c2)
qed

text \<open>
  The inherited methods that can be left by an exception: where they are, nothing
  has been written; where they return, for a request with a version, a response
  with the CORS headers has been written.
\<close>

lemma list_directory_raises:
  "fst (list_directory W path self) = Inl e \<Longrightarrow>
   wfile (snd (list_directory W path self)) = wfile self"
  by (auto simp: list_directory_def Let_def split: sum.splits if_splits)

lemma list_directory_carries:
  assumes v: "request_version self \<noteq> ''HTTP/0.9''"
    and r: "fst (list_directory W path self) = Inr f"
  shows "carries_cors self (snd (list_directory W path self))"
  using v r send_error_carries [OF v, of W 404 "Some ''No permission to list directory''" None]
  by (auto simp: list_directory_def Let_def end_headers_carries split: sum.splits if_splits)

lemma send_head_file_raises:
  "fst (send_head_file W path self) = Inl e \<Longrightarrow>
   wfile (snd (send_head_file W path self)) = wfile self"
  by (auto simp: send_head_file_def Let_def split: sum.splits option.splits if_splits)

lemma send_head_file_carries:
  assumes v: "request_version self \<noteq> ''HTTP/0.9''"
    and r: "fst (send_head_file W path self) = Inr f"
  shows "carries_cors self (snd (send_head_file W path self))"
  using v r send_error_carries [OF v, of W 404 "Some ''File not found''" None]
  by (auto simp: send_head_file_def Let_def end_headers_carries
      split: sum.splits option.splits if_splits)

lemma send_head_raises:
  "fst (send_head W self) = Inl e \<Longrightarrow> wfile (snd (send_head W self)) = wfile self"
  by (auto simp: send_head_def Let_def send_head_file_raises list_directory_raises
      split: sum.splits option.splits if_splits)

lemma send_head_carries:
  assumes v: "request_version self \<noteq> ''HTTP/0.9''"
    and r: "fst (send_head W self) = Inr f"
  shows "carries_cors self (snd (send_head W self))"
  using v r send_head_file_carries [OF v] list_directory_carries [OF v]
  by (auto simp: send_head_def Let_def end_headers_carries
      split: sum.splits option.splits if_splits)

lemma do_GET_raises:
  "fst (do_GET W self) = Some e \<Longrightarrow> wfile (snd (do_GET W self)) = wfile self"
proof (cases "send_head W self")
  case (Pair r s)
  assume e: "fst (do_GET W self) = Some e"
  with Pair have "r = Inl e"
    by (simp add: do_GET_def split: sum.splits option.splits)
  with Pair send_head_raises [of W self e] show ?thesis
    by (simp add: do_GET_def)
qed

lemma do_GET_carries:
  assumes v: "request_version self \<noteq> ''HTTP/0.9''"
    and r: "fst (do_GET W self) = None"
  shows "carries_cors self (snd (do_GET W self))"
proof (cases "send_head W self")
  case (Pair f s)
  with r obtain b where b: "f = Inr b"
    by (cases f) (simp_all add: do_GET_def)
  with Pair send_head_carries [OF v, of W b] have c: "carries_cors self s"
    by simp
  show ?thesis
  proof (cases b)
    case None
    with Pair b c show ?thesis
      by (simp add: do_GET_def)
  next
    case (Some bytes)
    with Pair b carries_write [OF c, of bytes] show ?thesis
      by (simp add: do_GET_def)
  qed
qed

lemma do_HEAD_raises:
  "fst (do_HEAD W self) = Some e \<Longrightarrow> wfile (snd (do_HEAD W self)) = wfile self"
proof (cases "send_head W self")
  case (Pair r s)
  assume e: "fst (do_HEAD W self) = Some e"
  with Pair have "r = Inl e"
    by (simp add: do_HEAD_def split: sum.splits)
  with Pair send_head_raises [of W self e] show ?thesis
    by (simp add: do_HEAD_def)
qed

lemma do_HEAD_carries:
  assumes v: "request_version self \<noteq> ''HTTP/0.9''"
    and r: "fst (do_HEAD W self) = None"
  shows "carries_cors self (snd (do_HEAD W self))"
proof (cases "send_head W self")
  case (Pair f s)
  with r obtain b where b: "f = Inr b"
    by (cases f) (simp_all add: do_HEAD_def)
  with Pair send_head_carries [OF v, of W b] have c: "carries_cors self s"
    by simp
  with Pair b show ?thesis
    by (simp add: do_HEAD_def)
qed

lemma call_method_raises:
  "fst (call_method W self) = Some e \<Longrightarrow> wfile (snd (call_method W self)) = wfile self"
  using do_GET_raises [of W self e] do_HEAD_raises [of W self e]
  by (simp add: call_method_def split: if_splits)

lemma call_method_carries:
  assumes v: "request_version self \<noteq> ''HTTP/0.9''"
    and r: "fst (call_method W self) = None"
  shows "carries_cors self (snd (call_method W self))"
  using r do_GET_carries [OF v, of W] do_HEAD_carries [OF v, of W]
    send_error_carries [OF v, of W 501]
  by (simp add: call_method_def split: if_splits)

subsection \<open>Whole responses\<close>

text \<open>
  The bytes of an error response to a request of version \<open>HTTP/0.9\<close>: the body alone.
\<close>

lemma send_error_http09:
  assumes v: "request_version self = ''HTTP/0.9''"
    and msg: "msg = (case message of
                       None \<Rightarrow> (case responses W code of Some r \<Rightarrow> fst r | None \<Rightarrow> ''???'')
                     | Some m \<Rightarrow> m)"
    and ex: "ex = (case explain of
                     None \<Rightarrow> (case responses W code of Some r \<Rightarrow> snd r | None \<Rightarrow> ''???'')
                   | Some e \<Rightarrow> e)"
    and c: "code \<ge> 200" "code \<noteq> 204" "code \<noteq> 205" "code \<noteq> 304"
    and body: "body = error_message W code msg ex"
  shows "wfile (send_error W code message explain self) =
           wfile self @ (if command self \<noteq> ''HEAD'' then body else [])"
proof -
  define s1 where
    "s1 = send_header ''Connection'' ''close'' (send_response W code (Some msg) self)"
  define s2 where
    "s2 = send_header ''Content-Length'' (str_int (int (length body)))
            (send_header ''Content-Type'' error_content_type s1)"
  have m': "msg = (case message of
                     None \<Rightarrow> fst (case responses W code of Some r \<Rightarrow> r | None \<Rightarrow> (''???'', ''???''))
                   | Some m \<Rightarrow> m)"
    and e': "ex = (case explain of
                     None \<Rightarrow> snd (case responses W code of Some r \<Rightarrow> r | None \<Rightarrow> (''???'', ''???''))
                   | Some e \<Rightarrow> e)"
    by (simp_all add: msg ex split: option.splits)
  have eq: "send_error W code message explain self =
      (if command (end_headers s2) \<noteq> ''HEAD'' \<and> body \<noteq> []
       then (end_headers s2)\<lparr>wfile := wfile (end_headers s2) @ body\<rparr>
       else end_headers s2)"
    unfolding send_error_def s1_def s2_def body m' e' using c
    by (simp add: Let_def case_prod_beta)
  have "request_version s2 = ''HTTP/0.9''"
    using v by (simp add: s2_def s1_def)
  then have e2: "end_headers s2 = s2"
    by (rule end_headers_http09)
  have w2: "wfile s2 = wfile self" and c2: "command s2 = command self"
    by (simp_all add: s2_def s1_def)
  show ?thesis
    unfolding eq e2 by (simp add: w2 c2)
qed

lemma resolved_path_send_head:
  "resolved_path W self = Some path \<Longrightarrow> send_head W self = send_head_file W path self"
  by (auto simp: resolved_path_def send_head_def Let_def
      split: if_splits option.splits sum.splits)

lemma resolved_file_open:
  "resolved_path W self = Some path \<Longrightarrow> resolved_file W self = Some f \<Longrightarrow>
   \<not> endswith path ''/'' \<and> open_rb W path = Inr f"
  by (auto simp: resolved_file_def split: if_splits sum.splits)

text \<open>
  The response to \<open>GET\<close> and \<open>HEAD\<close> for a path that resolves to a file that can be
  opened, unless the request's \<open>If-Modified-Since\<close> makes it a \<open>304\<close>, where the file's
  modification time can be formatted: the status line \<open>200\<close> and the headers (none of
  them for a request of version \<open>HTTP/0.9\<close>), then the file's bytes (none for
  \<open>HEAD\<close>).
\<close>

lemma file_response_written:
  assumes m: "command self = ''GET'' \<or> command self = ''HEAD''"
    and b: "headers_buffer self = []"
    and p: "resolved_path W self = Some path"
    and f: "resolved_file W self = Some f"
    and n: "not_modified W self f = Inr False"
    and t: "fromtimestamp W (st_mtime f) = None"
  shows "fst (call_method W self) = None"
    and "wfile (snd (call_method W self)) =
           wfile self @
           (if request_version self = ''HTTP/0.9'' then []
            else status_line 200 (reason_phrase W 200) @
                 ''Server: '' @ version_string W @ CRLF @
                 ''Date: '' @ date_time_string W None @ CRLF @
                 ''Content-type: '' @ guess_type (inherited_guess_type W) path @ CRLF @
                 ''Content-Length: '' @ str_int (int (st_size f)) @ CRLF @
                 ''Last-Modified: '' @ date_time_string W (Some (st_mtime f)) @ CRLF @
                 concat cors_lines @ CRLF) @
           (if command self = ''GET'' then content f else [])"
proof -
  define s where "s =
    send_header ''Last-Modified'' (date_time_string W (Some (st_mtime f)))
      (send_header ''Content-Length'' (str_int (int (st_size f)))
        (send_header ''Content-type'' (guess_type (inherited_guess_type W) path)
          (send_response W 200 None self)))"
  from resolved_file_open [OF p f] have "\<not> endswith path ''/''" and "open_rb W path = Inr f"
    by simp_all
  with n t have "send_head_file W path self = (Inr (Some (content f)), end_headers s)"
    by (simp add: send_head_file_def Let_def s_def)
  with resolved_path_send_head [OF p]
  have h: "send_head W self = (Inr (Some (content f)), end_headers s)"
    by simp
  have vs: "request_version s = request_version self" and ws: "wfile s = wfile self"
    by (simp_all add: s_def)
  have w: "wfile (end_headers s) =
      wfile self @
      (if request_version self = ''HTTP/0.9'' then []
       else status_line 200 (reason_phrase W 200) @
            ''Server: '' @ version_string W @ CRLF @
            ''Date: '' @ date_time_string W None @ CRLF @
            ''Content-type: '' @ guess_type (inherited_guess_type W) path @ CRLF @
            ''Content-Length: '' @ str_int (int (st_size f)) @ CRLF @
            ''Last-Modified: '' @ date_time_string W (Some (st_mtime f)) @ CRLF @
            concat cors_lines @ CRLF)"
  proof (cases "request_version self = ''HTTP/0.9''")
    case True
    with vs have "end_headers s = s"
      by (simp add: end_headers_http09)
    with True ws show ?thesis
      by simp
  next
    case False
    then have "headers_buffer s =
        [status_line 200 (reason_phrase W 200),
         ''Server: '' @ version_string W @ CRLF,
         ''Date: '' @ date_time_string W None @ CRLF,
         ''Content-type: '' @ guess_type (inherited_guess_type W) path @ CRLF,
         ''Content-Length: '' @ str_int (int (st_size f)) @ CRLF,
         ''Last-Modified: '' @ date_time_string W (Some (st_mtime f)) @ CRLF]"
      using b by (simp add: s_def send_header_buffer send_response_buffer)
    with False vs ws show ?thesis
      by (simp add: end_headers_writes)
  qed
  from m show "fst (call_method W self) = None"
    by (auto simp: call_method_def do_GET_def do_HEAD_def h)
  from m show "wfile (snd (call_method W self)) =
           wfile self @
           (if request_version self = ''HTTP/0.9'' then []
            else status_line 200 (reason_phrase W 200) @
                 ''Server: '' @ version_string W @ CRLF @
                 ''Date: '' @ date_time_string W None @ CRLF @
                 ''Content-type: '' @ guess_type (inherited_guess_type W) path @ CRLF @
                 ''Content-Length: '' @ str_int (int (st_size f)) @ CRLF @
                 ''Last-Modified: '' @ date_time_string W (Some (st_mtime f)) @ CRLF @
                 concat cors_lines @ CRLF) @
           (if command self = ''GET'' then content f else [])"
  proof
    assume "command self = ''GET''"
    then show ?thesis
      by (simp add: call_method_def do_GET_def h w)
  next
    assume "command self = ''HEAD''"
    then show ?thesis
      by (simp add: call_method_def do_HEAD_def h w)
  qed
qed

text \<open>
  The same request for a file whose modification time cannot be formatted:
  \<open>send_head\<close> is left by the exception of \<open>datetime.fromtimestamp\<close>, the file's bytes
  are not copied, and nothing is written, whatever the version of the request.
\<close>

lemma file_response_raises:
  assumes m: "command self = ''GET'' \<or> command self = ''HEAD''"
    and p: "resolved_path W self = Some path"
    and f: "resolved_file W self = Some f"
    and n: "not_modified W self f = Inr False"
    and t: "fromtimestamp W (st_mtime f) = Some e"
  shows "fst (call_method W self) = Some e"
    and "wfile (snd (call_method W self)) = wfile self"
proof -
  define s where "s =
    send_header ''Content-Length'' (str_int (int (st_size f)))
      (send_header ''Content-type'' (guess_type (inherited_guess_type W) path)
        (send_response W 200 None self))"
  from resolved_file_open [OF p f] have "\<not> endswith path ''/''" and "open_rb W path = Inr f"
    by simp_all
  with n t have "send_head_file W path self = (Inl e, s)"
    by (simp add: send_head_file_def Let_def s_def)
  with resolved_path_send_head [OF p] have h: "send_head W self = (Inl e, s)"
    by simp
  have ws: "wfile s = wfile self"
    by (simp add: s_def)
  from m show "fst (call_method W self) = Some e"
    by (auto simp: call_method_def do_GET_def do_HEAD_def h)
  from m show "wfile (snd (call_method W self)) = wfile self"
    by (auto simp: call_method_def do_GET_def do_HEAD_def h ws)
qed

text \<open>
  A path that \<open>open\<close> refuses with an exception other than \<open>OSError\<close>: the exception
  leaves \<open>send_head\<close> and the handler is as it was.
\<close>

lemma open_raises:
  assumes m: "command self = ''GET'' \<or> command self = ''HEAD''"
    and p: "resolved_path W self = Some path"
    and s: "\<not> endswith path ''/''"
    and f: "open_rb W path = Inl e"
    and e: "\<not> is_OSError e"
  shows "call_method W self = (Some e, self)"
proof -
  from s f e have "send_head_file W path self = (Inl e, self)"
    by (simp add: send_head_file_def Let_def)
  with resolved_path_send_head [OF p] have h: "send_head W self = (Inl e, self)"
    by simp
  from m show ?thesis
    by (auto simp: call_method_def do_GET_def do_HEAD_def h)
qed

lemma not_modified_response_written:
  assumes m: "command self = ''GET'' \<or> command self = ''HEAD''"
    and v: "request_version self \<noteq> ''HTTP/0.9''"
    and b: "headers_buffer self = []"
    and p: "resolved_path W self = Some path"
    and f: "resolved_file W self = Some f"
    and n: "not_modified W self f = Inr True"
  shows "wfile (snd (call_method W self)) =
           wfile self @
           status_line 304 (reason_phrase W 304) @
           ''Server: '' @ version_string W @ CRLF @
           ''Date: '' @ date_time_string W None @ CRLF @
           concat cors_lines @ CRLF"
proof -
  define s where "s = send_response W 304 None self"
  from resolved_file_open [OF p f] have "\<not> endswith path ''/''" and "open_rb W path = Inr f"
    by simp_all
  with n have "send_head_file W path self = (Inr None, end_headers s)"
    by (simp add: send_head_file_def Let_def s_def)
  with resolved_path_send_head [OF p] have h: "send_head W self = (Inr None, end_headers s)"
    by simp
  have "request_version s \<noteq> ''HTTP/0.9''" and "wfile s = wfile self"
    using v by (simp_all add: s_def)
  moreover have "headers_buffer s =
      [status_line 304 (reason_phrase W 304),
       ''Server: '' @ version_string W @ CRLF,
       ''Date: '' @ date_time_string W None @ CRLF]"
    using v b by (simp add: s_def send_response_buffer)
  ultimately have w: "wfile (end_headers s) =
      wfile self @
      status_line 304 (reason_phrase W 304) @
      ''Server: '' @ version_string W @ CRLF @
      ''Date: '' @ date_time_string W None @ CRLF @
      concat cors_lines @ CRLF"
    by (simp add: end_headers_writes)
  from m show ?thesis
    by (auto simp: call_method_def do_GET_def do_HEAD_def h w)
qed

lemma example_fields:
  "reason_phrase example_world 200 = ''OK''"
  "reason_phrase example_world 304 = ''Not Modified''"
  "responses example_world 404 = Some (''Not Found'', ''Nothing matches the given URI'')"
  "version_string example_world = ''SimpleHTTP/0.6 Python/3.11.10''"
  "date_time_string example_world None = ''Tue, 03 Nov 2026 12:00:00 GMT''"
  "date_time_string example_world (Some 1793606400) = ''Mon, 02 Nov 2026 08:00:00 GMT''"
  "error_message example_world c m e = ''<h1>Error response</h1>''"
  "guess_type (inherited_guess_type example_world) ''/srv/ebook/README.md'' = ''text/markdown''"
  "fromtimestamp example_world 1793606400 = None"
  "fromtimestamp example_world 253402300800 =
     Some (OtherException ''ValueError: year 10000 is out of range'')"
  by (simp_all add: example_world_def reason_phrase_def guess_type_def endswith_def)

lemma example_mtime:
  "fromtimestamp example_world
     (st_mtime \<lparr>content = ''# Hello'', st_size = 7, st_mtime = 1793606400\<rparr>) = None"
  "fromtimestamp example_world
     (st_mtime \<lparr>content = ''# Later'', st_size = 7, st_mtime = 253402300800\<rparr>) =
     Some (OtherException ''ValueError: year 10000 is out of range'')"
  by (simp_all add: example_world_def)

lemma example_request_fields:
  "command (example_request m p hs) = m"
  "request_path (example_request m p hs) = p"
  "request_version (example_request m p hs) \<noteq> ''HTTP/0.9''"
  "headers (example_request m p hs) = hs"
  "headers_buffer (example_request m p hs) = []"
  "wfile (example_request m p hs) = []"
  by (simp_all add: example_request_def)

lemma example_missing:
  "send_head example_world (example_request m ''/missing.txt'' hs) =
     (Inr None, send_error example_world 404 (Some ''File not found'') None
                  (example_request m ''/missing.txt'' hs))"
  by (simp add: send_head_def send_head_file_def Let_def example_world_def
      example_request_def endswith_def is_OSError_def)

lemma example_resolved:
  "resolved_path example_world (example_request m ''/README.md'' hs) =
     Some ''/srv/ebook/README.md''"
  "resolved_file example_world (example_request m ''/README.md'' hs) =
     Some \<lparr>content = ''# Hello'', st_size = 7, st_mtime = 1793606400\<rparr>"
  by (simp_all add: resolved_path_def resolved_file_def example_world_def
      example_request_def endswith_def)

lemma example_future_resolved:
  "resolved_path example_world (example_request m ''/future.md'' hs) =
     Some ''/srv/ebook/future.md''"
  "resolved_file example_world (example_request m ''/future.md'' hs) =
     Some \<lparr>content = ''# Later'', st_size = 7, st_mtime = 253402300800\<rparr>"
  by (simp_all add: resolved_path_def resolved_file_def example_world_def
      example_request_def endswith_def)

lemma example_nul_resolved:
  "resolved_path example_world (example_request m ''/%00'' hs) =
     Some (''/srv/ebook/'' @ [CHR 0x00])"
  "\<not> endswith (''/srv/ebook/'' @ [CHR 0x00]) ''/''"
  "open_rb example_world (''/srv/ebook/'' @ [CHR 0x00]) =
     Inl (OtherException ''ValueError: embedded null byte'')"
  "\<not> is_OSError (OtherException ''ValueError: embedded null byte'')"
  by (simp_all add: resolved_path_def example_world_def example_request_def endswith_def
      is_OSError_def)

lemma example_not_modified:
  "not_modified example_world (example_request m p []) f = Inr False"
  "not_modified example_world
     (example_request m ''/README.md''
        [(''If-Modified-Since'', ''Tue, 03 Nov 2026 00:00:00 GMT'')])
     \<lparr>content = ''# Hello'', st_size = 7, st_mtime = 1793606400\<rparr> = Inr True"
  by (simp_all add: not_modified_def header_get_def example_request_def example_world_def
      lower_def lower_char_def)

lemma example_request_http09_fields:
  "command (example_request_http09 p) = ''GET''"
  "request_path (example_request_http09 p) = p"
  "request_version (example_request_http09 p) = ''HTTP/0.9''"
  "headers (example_request_http09 p) = []"
  "headers_buffer (example_request_http09 p) = []"
  "wfile (example_request_http09 p) = []"
  by (simp_all add: example_request_http09_def example_request_def)

lemma example_http09_resolved:
  "resolved_path example_world (example_request_http09 ''/README.md'') =
     Some ''/srv/ebook/README.md''"
  "resolved_file example_world (example_request_http09 ''/README.md'') =
     Some \<lparr>content = ''# Hello'', st_size = 7, st_mtime = 1793606400\<rparr>"
  "not_modified example_world (example_request_http09 ''/README.md'') f = Inr False"
  "send_head example_world (example_request_http09 ''/missing.txt'') =
     (Inr None, send_error example_world 404 (Some ''File not found'') None
                  (example_request_http09 ''/missing.txt''))"
  by (simp_all add: resolved_path_def resolved_file_def not_modified_def header_get_def
      send_head_def send_head_file_def Let_def example_world_def example_request_http09_def
      example_request_def endswith_def is_OSError_def)

subsection \<open>The CORS headers\<close>

text \<open>
  C1, as stated, fails for requests of version \<open>HTTP/0.9\<close>. The script's \<open>end_headers\<close>
  calls \<open>send_header\<close> three times whatever the response is, but the inherited
  \<open>send_header\<close> and \<open>end_headers\<close> do nothing for such a request. In the example, the
  request line \<open>GET /README.md\<close> (no version) is answered with the seven bytes of the
  file alone, and \<open>GET /missing.txt\<close> with the error page alone: no status line, no
  header, hence no CORS header, and \<open>end_headers\<close> leaves the handler unchanged.
\<close>

theorem cors_headers_counterexample:
  "wfile (snd (call_method example_world (example_request_http09 ''/README.md''))) =
     ''# Hello'' \<and>
   wfile (snd (call_method example_world (example_request_http09 ''/missing.txt''))) =
     ''<h1>Error response</h1>'' \<and>
   end_headers (example_request_http09 ''/missing.txt'') =
     example_request_http09 ''/missing.txt''"
proof -
  let ?r = "example_request_http09 ''/README.md''"
  let ?m = "example_request_http09 ''/missing.txt''"
  have "command ?r = ''GET'' \<or> command ?r = ''HEAD''"
    by (simp add: example_request_http09_fields)
  from file_response_written(2)
         [OF this example_request_http09_fields(5) example_http09_resolved(1,2,3)
            example_mtime(1)]
  have a: "wfile (snd (call_method example_world ?r)) = ''# Hello''"
    by (simp add: example_request_http09_fields)
  have "wfile (send_error example_world 404 (Some ''File not found'') None ?m) =
          wfile ?m @ (if command ?m \<noteq> ''HEAD'' then ''<h1>Error response</h1>'' else [])"
    by (rule send_error_http09 [where msg = "''File not found''"
          and ex = "''Nothing matches the given URI''"])
      (simp_all add: example_request_http09_fields example_fields)
  then have b: "wfile (snd (call_method example_world ?m)) = ''<h1>Error response</h1>''"
    by (simp add: call_method_def do_GET_def example_http09_resolved(4)
        example_request_http09_fields)
  have c: "end_headers ?m = ?m"
    by (simp add: end_headers_http09 example_request_http09_fields)
  from a b c show ?thesis
    by simp
qed

text \<open>
  C1, amended. Every response to a request whose version is not \<open>HTTP/0.9\<close> carries
  the three CORS headers, with exactly the values of \<open>cors_lines\<close>:
  \<open>Access-Control-Allow-Origin: *\<close>, \<open>Access-Control-Allow-Methods: GET, POST, OPTIONS\<close>
  and \<open>Access-Control-Allow-Headers: Content-Type\<close>.
  \<^item> The step is unconditional in the script and happens at finalization: whatever
    status line and headers the buffer holds, \<open>end_headers\<close> writes the buffer, then
    the three lines, then the blank line that ends the header block. Only for a
    request of version \<open>HTTP/0.9\<close>, whose response has no header block, does it write
    nothing.
  \<^item> Error responses: every \<open>send_error\<close>, for any code, message and explanation (the
    not-found response is \<open>send_error 404\<close>), carries them.
  \<^item> Every response to a parsed request carries them: whatever the method of the
    request and whatever the file system holds (file, not modified, redirect,
    directory listing, not found, not implemented), where the method that handles
    the request returns, a response with the three headers has been written.
  \<^item> Where that method is left by an exception the inherited code does not catch (a
    path that \<open>open\<close> refuses with \<open>ValueError\<close>, a modification time that cannot be
    formatted, a listing that cannot be encoded), no response is finalized and
    nothing at all has been written: there is no response without the headers.
\<close>

theorem cors_headers_on_every_response:
  "wfile (end_headers self) =
     wfile self @
     (if request_version self = ''HTTP/0.9'' then []
      else concat (headers_buffer self @ cors_lines @ [CRLF])) \<and>
   (request_version self \<noteq> ''HTTP/0.9'' \<longrightarrow>
      carries_cors self (send_error W code message explain self) \<and>
      (fst (call_method W self) = None \<longrightarrow> carries_cors self (snd (call_method W self)))) \<and>
   (fst (call_method W self) = Some e \<longrightarrow> wfile (snd (call_method W self)) = wfile self)"
proof (intro conjI impI)
  show "wfile (end_headers self) =
     wfile self @
     (if request_version self = ''HTTP/0.9'' then []
      else concat (headers_buffer self @ cors_lines @ [CRLF]))"
    by (cases "request_version self = ''HTTP/0.9''")
      (simp_all add: end_headers_http09 end_headers_writes)
next
  assume "request_version self \<noteq> ''HTTP/0.9''"
  then show "carries_cors self (send_error W code message explain self)"
    by (rule send_error_carries)
next
  assume "request_version self \<noteq> ''HTTP/0.9''" and "fst (call_method W self) = None"
  then show "carries_cors self (snd (call_method W self))"
    by (rule call_method_carries)
next
  assume "fst (call_method W self) = Some e"
  then show "wfile (snd (call_method W self)) = wfile self"
    by (rule call_method_raises)
qed

theorem cors_headers_on_every_response_witness:
  "request_version (example_request ''GET'' ''/missing.txt'' []) \<noteq> ''HTTP/0.9'' \<and>
   wfile (end_headers (example_request ''GET'' ''/missing.txt'' [])) =
     ''Access-Control-Allow-Origin: *'' @ CRLF @
     ''Access-Control-Allow-Methods: GET, POST, OPTIONS'' @ CRLF @
     ''Access-Control-Allow-Headers: Content-Type'' @ CRLF @
     CRLF \<and>
   carries_cors (example_request ''GET'' ''/missing.txt'' [])
     (send_error example_world 404 (Some ''File not found'') None
        (example_request ''GET'' ''/missing.txt'' [])) \<and>
   fst (call_method example_world (example_request ''GET'' ''/missing.txt'' [])) = None \<and>
   carries_cors (example_request ''GET'' ''/missing.txt'' [])
     (snd (call_method example_world (example_request ''GET'' ''/missing.txt'' []))) \<and>
   fst (call_method example_world (example_request ''GET'' ''/%00'' [])) =
     Some (OtherException ''ValueError: embedded null byte'') \<and>
   wfile (snd (call_method example_world (example_request ''GET'' ''/%00'' []))) = []"
proof -
  let ?r = "example_request ''GET'' ''/missing.txt'' []"
  let ?n = "example_request ''GET'' ''/%00'' []"
  let ?e = "OtherException ''ValueError: embedded null byte''"
  have r: "request_version ?r \<noteq> ''HTTP/0.9''" "headers_buffer ?r = []" "wfile ?r = []"
    by (simp_all add: example_request_def)
  have c: "fst (call_method example_world ?r) = None"
    by (simp add: call_method_def do_GET_def example_missing example_request_fields)
  from cors_headers_on_every_response
         [where self = ?r and W = example_world and code = 404
            and message = "Some ''File not found''" and explain = None and e = ?e]
  have a: "wfile (end_headers ?r) =
     ''Access-Control-Allow-Origin: *'' @ CRLF @
     ''Access-Control-Allow-Methods: GET, POST, OPTIONS'' @ CRLF @
     ''Access-Control-Allow-Headers: Content-Type'' @ CRLF @
     CRLF"
    and b: "carries_cors ?r (send_error example_world 404 (Some ''File not found'') None ?r)"
    and d: "carries_cors ?r (snd (call_method example_world ?r))"
    by (simp_all add: r c cors_lines_def)
  have "command ?n = ''GET'' \<or> command ?n = ''HEAD''"
    by (simp add: example_request_fields)
  from open_raises [OF this example_nul_resolved]
  have n: "call_method example_world ?n = (Some ?e, ?n)" .
  from cors_headers_on_every_response
         [where self = ?n and W = example_world and code = 404
            and message = "Some ''File not found''" and explain = None and e = ?e]
  have "wfile (snd (call_method example_world ?n)) = wfile ?n"
    by (simp add: n)
  then have e: "wfile (snd (call_method example_world ?n)) = []"
    by (simp add: example_request_fields)
  from r(1) a b c d n e show ?thesis
    by simp
qed

text \<open>
  The not-found response of the example, byte for byte: \<open>GET /missing.txt\<close> where no
  such file exists.
\<close>

lemma not_found_response_example:
  "wfile (snd (call_method example_world (example_request ''GET'' ''/missing.txt'' []))) =
     ''HTTP/1.0 404 File not found'' @ CRLF @
     ''Server: SimpleHTTP/0.6 Python/3.11.10'' @ CRLF @
     ''Date: Tue, 03 Nov 2026 12:00:00 GMT'' @ CRLF @
     ''Connection: close'' @ CRLF @
     ''Content-Type: text/html;charset=utf-8'' @ CRLF @
     ''Content-Length: 23'' @ CRLF @
     ''Access-Control-Allow-Origin: *'' @ CRLF @
     ''Access-Control-Allow-Methods: GET, POST, OPTIONS'' @ CRLF @
     ''Access-Control-Allow-Headers: Content-Type'' @ CRLF @
     CRLF @
     ''<h1>Error response</h1>''"
proof -
  let ?r = "example_request ''GET'' ''/missing.txt'' []"
  have "wfile (send_error example_world 404 (Some ''File not found'') None ?r) =
           wfile ?r @ concat (headers_buffer ?r) @
           status_line 404 ''File not found'' @
           ''Server: '' @ version_string example_world @ CRLF @
           ''Date: '' @ date_time_string example_world None @ CRLF @
           ''Connection: close'' @ CRLF @
           ''Content-Type: '' @ error_content_type @ CRLF @
           ''Content-Length: '' @ str_int (int (length ''<h1>Error response</h1>'')) @ CRLF @
           concat cors_lines @ CRLF @
           (if command ?r \<noteq> ''HEAD'' then ''<h1>Error response</h1>'' else [])"
    by (rule send_error_written [where msg = "''File not found''"
          and ex = "''Nothing matches the given URI''"])
      (simp_all add: example_request_fields example_fields)
  then show ?thesis
    by (simp add: call_method_def do_GET_def example_missing example_request_fields
        example_fields status_line_def protocol_version_def error_content_type_def
        cors_lines_def str_int_eval)
qed

subsection \<open>Serving an existing file\<close>

text \<open>
  C5, as stated, fails. In the example, \<open>/README.md\<close> and \<open>/future.md\<close> resolve to
  existing readable files, and yet
  \<^item> the response to \<open>HEAD /README.md\<close> has status 200 and no body: it ends with the
    blank line after the headers;
  \<^item> the response to \<open>GET /README.md\<close> with
    \<open>If-Modified-Since: Tue, 03 Nov 2026 00:00:00 GMT\<close> (the file is older) has status
    304 and no body;
  \<^item> the response to the request line \<open>GET /README.md\<close> without a version is the
    file's bytes with no status line at all;
  \<^item> \<open>GET /future.md\<close> gets no response: the modification time of the file cannot
    be formatted for the \<open>Last-Modified\<close> header, \<open>send_head\<close> is left by a
    \<open>ValueError\<close>, and nothing is written.
\<close>

theorem file_response_counterexample:
  "resolved_file example_world (example_request ''HEAD'' ''/README.md'' []) =
     Some \<lparr>content = ''# Hello'', st_size = 7, st_mtime = 1793606400\<rparr> \<and>
   wfile (snd (call_method example_world (example_request ''HEAD'' ''/README.md'' []))) =
     ''HTTP/1.0 200 OK'' @ CRLF @
     ''Server: SimpleHTTP/0.6 Python/3.11.10'' @ CRLF @
     ''Date: Tue, 03 Nov 2026 12:00:00 GMT'' @ CRLF @
     ''Content-type: text/markdown'' @ CRLF @
     ''Content-Length: 7'' @ CRLF @
     ''Last-Modified: Mon, 02 Nov 2026 08:00:00 GMT'' @ CRLF @
     ''Access-Control-Allow-Origin: *'' @ CRLF @
     ''Access-Control-Allow-Methods: GET, POST, OPTIONS'' @ CRLF @
     ''Access-Control-Allow-Headers: Content-Type'' @ CRLF @
     CRLF \<and>
   resolved_file example_world
     (example_request ''GET'' ''/README.md''
        [(''If-Modified-Since'', ''Tue, 03 Nov 2026 00:00:00 GMT'')]) =
     Some \<lparr>content = ''# Hello'', st_size = 7, st_mtime = 1793606400\<rparr> \<and>
   wfile (snd (call_method example_world
     (example_request ''GET'' ''/README.md''
        [(''If-Modified-Since'', ''Tue, 03 Nov 2026 00:00:00 GMT'')]))) =
     ''HTTP/1.0 304 Not Modified'' @ CRLF @
     ''Server: SimpleHTTP/0.6 Python/3.11.10'' @ CRLF @
     ''Date: Tue, 03 Nov 2026 12:00:00 GMT'' @ CRLF @
     ''Access-Control-Allow-Origin: *'' @ CRLF @
     ''Access-Control-Allow-Methods: GET, POST, OPTIONS'' @ CRLF @
     ''Access-Control-Allow-Headers: Content-Type'' @ CRLF @
     CRLF \<and>
   resolved_file example_world (example_request_http09 ''/README.md'') =
     Some \<lparr>content = ''# Hello'', st_size = 7, st_mtime = 1793606400\<rparr> \<and>
   wfile (snd (call_method example_world (example_request_http09 ''/README.md''))) =
     ''# Hello'' \<and>
   resolved_file example_world (example_request ''GET'' ''/future.md'' []) =
     Some \<lparr>content = ''# Later'', st_size = 7, st_mtime = 253402300800\<rparr> \<and>
   fst (call_method example_world (example_request ''GET'' ''/future.md'' [])) =
     Some (OtherException ''ValueError: year 10000 is out of range'') \<and>
   wfile (snd (call_method example_world (example_request ''GET'' ''/future.md'' []))) = []"
proof -
  let ?h = "example_request ''HEAD'' ''/README.md'' []"
  let ?g = "example_request ''GET'' ''/README.md''
              [(''If-Modified-Since'', ''Tue, 03 Nov 2026 00:00:00 GMT'')]"
  let ?z = "example_request_http09 ''/README.md''"
  let ?u = "example_request ''GET'' ''/future.md'' []"
  have "command ?h = ''GET'' \<or> command ?h = ''HEAD''"
    by (simp add: example_request_fields)
  from file_response_written(2)
         [OF this example_request_fields(5) example_resolved example_not_modified(1)
            example_mtime(1)]
  have a: "wfile (snd (call_method example_world ?h)) =
     ''HTTP/1.0 200 OK'' @ CRLF @
     ''Server: SimpleHTTP/0.6 Python/3.11.10'' @ CRLF @
     ''Date: Tue, 03 Nov 2026 12:00:00 GMT'' @ CRLF @
     ''Content-type: text/markdown'' @ CRLF @
     ''Content-Length: 7'' @ CRLF @
     ''Last-Modified: Mon, 02 Nov 2026 08:00:00 GMT'' @ CRLF @
     ''Access-Control-Allow-Origin: *'' @ CRLF @
     ''Access-Control-Allow-Methods: GET, POST, OPTIONS'' @ CRLF @
     ''Access-Control-Allow-Headers: Content-Type'' @ CRLF @
     CRLF"
    by (simp add: example_request_fields example_fields status_line_def protocol_version_def
        cors_lines_def str_int_eval)
  have "command ?g = ''GET'' \<or> command ?g = ''HEAD''"
    by (simp add: example_request_fields)
  from not_modified_response_written
         [OF this example_request_fields(3) example_request_fields(5) example_resolved
            example_not_modified(2)]
  have b: "wfile (snd (call_method example_world ?g)) =
     ''HTTP/1.0 304 Not Modified'' @ CRLF @
     ''Server: SimpleHTTP/0.6 Python/3.11.10'' @ CRLF @
     ''Date: Tue, 03 Nov 2026 12:00:00 GMT'' @ CRLF @
     ''Access-Control-Allow-Origin: *'' @ CRLF @
     ''Access-Control-Allow-Methods: GET, POST, OPTIONS'' @ CRLF @
     ''Access-Control-Allow-Headers: Content-Type'' @ CRLF @
     CRLF"
    by (simp add: example_request_fields example_fields status_line_def protocol_version_def
        cors_lines_def str_int_eval)
  have "command ?z = ''GET'' \<or> command ?z = ''HEAD''"
    by (simp add: example_request_http09_fields)
  from file_response_written(2)
         [OF this example_request_http09_fields(5) example_http09_resolved(1,2,3)
            example_mtime(1)]
  have c: "wfile (snd (call_method example_world ?z)) = ''# Hello''"
    by (simp add: example_request_http09_fields)
  have u: "command ?u = ''GET'' \<or> command ?u = ''HEAD''"
    by (simp add: example_request_fields)
  from file_response_raises
         [OF u example_future_resolved example_not_modified(1) example_mtime(2)]
  have d: "fst (call_method example_world ?u) =
             Some (OtherException ''ValueError: year 10000 is out of range'')"
    and e: "wfile (snd (call_method example_world ?u)) = []"
    by (simp_all add: example_request_fields)
  from a b c d e show ?thesis
    by (simp add: example_resolved example_future_resolved example_http09_resolved)
qed

text \<open>
  C5, amended. Take a \<open>GET\<close> request whose path resolves to an existing readable
  file \<open>f\<close> and that is not answered \<open>304 Not Modified\<close> on account of its
  \<open>If-Modified-Since\<close> header.
  \<^item> Where the modification time of \<open>f\<close> can be formatted (it lies in the years 1 to
    9999), the method returns and the response ends with exactly the bytes of \<open>f\<close>;
    before them come the status line \<open>200\<close>, the headers \<open>Server\<close>, \<open>Date\<close>,
    \<open>Content-type\<close>, \<open>Content-Length\<close> and \<open>Last-Modified\<close>, the three CORS headers and a
    blank line, unless the request is of version \<open>HTTP/0.9\<close>, which gets the bytes
    alone. A \<open>HEAD\<close> request gets the same status line and headers, and no body.
  \<^item> Where it cannot, \<open>send_head\<close> is left by the exception that
    \<open>datetime.fromtimestamp\<close> raises, and neither a status line nor the bytes of \<open>f\<close>
    are written.
\<close>

theorem get_file_response:
  assumes "command self = ''GET'' \<or> command self = ''HEAD''"
    and "headers_buffer self = []"
    and "resolved_path W self = Some path"
    and "resolved_file W self = Some f"
    and "not_modified W self f = Inr False"
  shows "(fromtimestamp W (st_mtime f) = None \<longrightarrow>
            fst (call_method W self) = None \<and>
            wfile (snd (call_method W self)) =
              wfile self @
              (if request_version self = ''HTTP/0.9'' then []
               else status_line 200 (reason_phrase W 200) @
                    ''Server: '' @ version_string W @ CRLF @
                    ''Date: '' @ date_time_string W None @ CRLF @
                    ''Content-type: '' @ guess_type (inherited_guess_type W) path @ CRLF @
                    ''Content-Length: '' @ str_int (int (st_size f)) @ CRLF @
                    ''Last-Modified: '' @ date_time_string W (Some (st_mtime f)) @ CRLF @
                    concat cors_lines @ CRLF) @
              (if command self = ''GET'' then content f else [])) \<and>
         (fromtimestamp W (st_mtime f) = Some e \<longrightarrow>
            fst (call_method W self) = Some e \<and>
            wfile (snd (call_method W self)) = wfile self)"
  using file_response_written [OF assms] file_response_raises [OF assms(1,3,4,5)]
  by blast

theorem get_file_response_witness:
  "(command (example_request ''GET'' ''/README.md'' []) = ''GET'' \<or>
    command (example_request ''GET'' ''/README.md'' []) = ''HEAD'') \<and>
   headers_buffer (example_request ''GET'' ''/README.md'' []) = [] \<and>
   resolved_path example_world (example_request ''GET'' ''/README.md'' []) =
     Some ''/srv/ebook/README.md'' \<and>
   resolved_file example_world (example_request ''GET'' ''/README.md'' []) =
     Some \<lparr>content = ''# Hello'', st_size = 7, st_mtime = 1793606400\<rparr> \<and>
   not_modified example_world (example_request ''GET'' ''/README.md'' [])
     \<lparr>content = ''# Hello'', st_size = 7, st_mtime = 1793606400\<rparr> = Inr False \<and>
   fromtimestamp example_world 1793606400 = None \<and>
   fst (call_method example_world (example_request ''GET'' ''/README.md'' [])) = None \<and>
   wfile (snd (call_method example_world (example_request ''GET'' ''/README.md'' []))) =
     ''HTTP/1.0 200 OK'' @ CRLF @
     ''Server: SimpleHTTP/0.6 Python/3.11.10'' @ CRLF @
     ''Date: Tue, 03 Nov 2026 12:00:00 GMT'' @ CRLF @
     ''Content-type: text/markdown'' @ CRLF @
     ''Content-Length: 7'' @ CRLF @
     ''Last-Modified: Mon, 02 Nov 2026 08:00:00 GMT'' @ CRLF @
     ''Access-Control-Allow-Origin: *'' @ CRLF @
     ''Access-Control-Allow-Methods: GET, POST, OPTIONS'' @ CRLF @
     ''Access-Control-Allow-Headers: Content-Type'' @ CRLF @
     CRLF @
     ''# Hello'' \<and>
   resolved_file example_world (example_request ''HEAD'' ''/future.md'' []) =
     Some \<lparr>content = ''# Later'', st_size = 7, st_mtime = 253402300800\<rparr> \<and>
   fromtimestamp example_world 253402300800 =
     Some (OtherException ''ValueError: year 10000 is out of range'') \<and>
   fst (call_method example_world (example_request ''HEAD'' ''/future.md'' [])) =
     Some (OtherException ''ValueError: year 10000 is out of range'') \<and>
   wfile (snd (call_method example_world (example_request ''HEAD'' ''/future.md'' []))) = []"
proof -
  let ?r = "example_request ''GET'' ''/README.md'' []"
  let ?u = "example_request ''HEAD'' ''/future.md'' []"
  let ?e = "OtherException ''ValueError: year 10000 is out of range''"
  have m: "command ?r = ''GET'' \<or> command ?r = ''HEAD''"
    by (simp add: example_request_fields)
  from get_file_response
         [OF m example_request_fields(5) example_resolved example_not_modified(1),
          where e = ?e]
  have a: "fst (call_method example_world ?r) = None"
    and b: "wfile (snd (call_method example_world ?r)) =
     ''HTTP/1.0 200 OK'' @ CRLF @
     ''Server: SimpleHTTP/0.6 Python/3.11.10'' @ CRLF @
     ''Date: Tue, 03 Nov 2026 12:00:00 GMT'' @ CRLF @
     ''Content-type: text/markdown'' @ CRLF @
     ''Content-Length: 7'' @ CRLF @
     ''Last-Modified: Mon, 02 Nov 2026 08:00:00 GMT'' @ CRLF @
     ''Access-Control-Allow-Origin: *'' @ CRLF @
     ''Access-Control-Allow-Methods: GET, POST, OPTIONS'' @ CRLF @
     ''Access-Control-Allow-Headers: Content-Type'' @ CRLF @
     CRLF @
     ''# Hello''"
    by (simp_all add: example_request_fields example_fields status_line_def
        protocol_version_def cors_lines_def str_int_eval)
  have u: "command ?u = ''GET'' \<or> command ?u = ''HEAD''"
    by (simp add: example_request_fields)
  from get_file_response
         [OF u example_request_fields(5) example_future_resolved example_not_modified(1),
          where e = ?e]
  have c: "fst (call_method example_world ?u) = Some ?e"
    and d: "wfile (snd (call_method example_world ?u)) = []"
    by (simp_all add: example_request_fields example_fields)
  from m a b c d show ?thesis
    by (simp add: example_request_fields example_resolved example_future_resolved
        example_not_modified example_fields)
qed

subsection \<open>The runs of the script\<close>

lemmas main_eval = main_def try_block_def except_clause_def uncaught_def Let_def



lemma main_interrupted:
  "chdir E (ebook_dir E) = None \<Longrightarrow> tcp_server E ('''', PORT) = None \<Longrightarrow>
   serve_forever E = Raises KeyboardInterrupt \<Longrightarrow>
   main E =
     \<lparr>trace =
        [Chdir (ebook_dir E),
         Print (''Starting FASM eBook server on port '' @ str_int PORT),
         Print (''Serving from: '' @ ebook_dir E),
         Print (''Open your browser to: http://localhost:'' @ str_int PORT),
         Print ''Press Ctrl+C to stop the server'',
         Bind '''' PORT,
         ServeForever,
         ServerClose,
         Print (LF # ''Server stopped.'')],
      exit_status = Some 0\<rparr>"
  by (simp add: main_eval)

lemma failed_to_start_iff:
  "failed_to_start (main E) \<longleftrightarrow>
     chdir E (ebook_dir E) \<noteq> None \<or>
     (\<exists>e. tcp_server E ('''', PORT) = Some e \<and> e \<noteq> KeyboardInterrupt)"
  by (auto simp: main_eval failed_to_start_def split: option.splits exn.splits outcome.splits)

lemma example_env_fields:
  "chdir example_env d = None" "tcp_server example_env a = None"
  "serve_forever example_env = Raises KeyboardInterrupt"
  "ebook_dir example_env = ''/srv/ebook''"
  by (simp_all add: example_env_def ebook_dir_def)



lemma main_example_env:
  "main example_env =
     \<lparr>trace =
        [Chdir ''/srv/ebook'',
         Print ''Starting FASM eBook server on port 8000'',
         Print ''Serving from: /srv/ebook'',
         Print ''Open your browser to: http://localhost:8000'',
         Print ''Press Ctrl+C to stop the server'',
         Bind '''' 8000,
         ServeForever,
         ServerClose,
         Print (LF # ''Server stopped.'')],
      exit_status = Some 0\<rparr>"
proof -
  have "main example_env =
     \<lparr>trace =
        [Chdir (ebook_dir example_env),
         Print (''Starting FASM eBook server on port '' @ str_int PORT),
         Print (''Serving from: '' @ ebook_dir example_env),
         Print (''Open your browser to: http://localhost:'' @ str_int PORT),
         Print ''Press Ctrl+C to stop the server'',
         Bind '''' PORT,
         ServeForever,
         ServerClose,
         Print (LF # ''Server stopped.'')],
      exit_status = Some 0\<rparr>"
    by (rule main_interrupted) (simp_all add: example_env_fields)
  then show ?thesis
    by (simp add: example_env_fields str_int_PORT) (simp add: PORT_def)
qed









text \<open>
  C7. When an interrupt arrives while the server is running (the directory was
  entered, the server was bound, and \<open>serve_forever\<close> raises \<open>KeyboardInterrupt\<close>), the
  process closes the server, prints the shutdown message \<open>Server stopped.\<close> (after an
  empty line) as its last action, and exits with status 0.
\<close>

theorem interrupt_shutdown:
  assumes "chdir E (ebook_dir E) = None"
    and "tcp_server E ('''', PORT) = None"
    and "serve_forever E = Raises KeyboardInterrupt"
  shows "exit_status (main E) = Some 0 \<and>
         last (trace (main E)) = Print (LF # ''Server stopped.'') \<and>
         last (printed (main E)) = LF # ''Server stopped.'' \<and>
         drop (length (trace (main E)) - 3) (trace (main E)) =
           [ServeForever, ServerClose, Print (LF # ''Server stopped.'')]"
  using main_interrupted [OF assms] by (simp add: printed_def)

theorem interrupt_shutdown_witness:
  "chdir example_env (ebook_dir example_env) = None \<and>
   tcp_server example_env ('''', PORT) = None \<and>
   serve_forever example_env = Raises KeyboardInterrupt \<and>
   exit_status (main example_env) = Some 0 \<and>
   last (trace (main example_env)) = Print (LF # ''Server stopped.'') \<and>
   last (printed (main example_env)) = LF # ''Server stopped.''"
proof -
  have h: "chdir example_env (ebook_dir example_env) = None"
    "tcp_server example_env ('''', PORT) = None"
    "serve_forever example_env = Raises KeyboardInterrupt"
    by (simp_all add: example_env_fields)
  from h interrupt_shutdown [OF h] show ?thesis
    by simp
qed

text \<open>
  C8. The server is bound to the address \<open>("", 8000)\<close>: the empty host (all
  interfaces) and the constant port 8000, in every run that gets as far as binding,
  and to nothing else. The run does not depend on the command line or on the
  environment variables. The content root is fixed at process start: the first thing
  a run does is change into the directory that holds the script,
  \<open>Path(__file__).parent\<close>, and it never changes directory again.
\<close>

theorem fixed_port_and_content_root:
  "binds (main E) = (if chdir E (ebook_dir E) = None then [('''', 8000)] else []) \<and>
   main (E\<lparr>argv := a, environ := v\<rparr>) = main E \<and>
   hd (trace (main E)) = Chdir (path_parent E (script_file E)) \<and>
   chdirs (main E) = [path_parent E (script_file E)]"
proof (intro conjI)
  show "binds (main E) = (if chdir E (ebook_dir E) = None then [('''', 8000)] else [])"
    by (auto simp: main_eval binds_def PORT_def
        split: option.splits exn.splits outcome.splits)
  show "main (E\<lparr>argv := a, environ := v\<rparr>) = main E"
    by (simp add: main_eval ebook_dir_def split: option.splits)
  show "hd (trace (main E)) = Chdir (path_parent E (script_file E))"
    by (auto simp: main_eval ebook_dir_def split: option.splits exn.splits outcome.splits)
  show "chdirs (main E) = [path_parent E (script_file E)]"
    by (auto simp: main_eval chdirs_def ebook_dir_def
        split: option.splits exn.splits outcome.splits)
qed

theorem fixed_port_and_content_root_witness:
  "binds (main example_env) = [('''', 8000)] \<and>
   main (example_env\<lparr>argv := [''serve.py'', ''--port'', ''9000''],
                     environ := [(''PORT'', ''9000'')]\<rparr>) = main example_env \<and>
   hd (trace (main example_env)) = Chdir ''/srv/ebook'' \<and>
   chdirs (main example_env) = [''/srv/ebook'']"
proof -
  have "path_parent example_env (script_file example_env) = ''/srv/ebook''"
    by (simp add: example_env_def)
  with fixed_port_and_content_root
         [where E = example_env and a = "[''serve.py'', ''--port'', ''9000'']"
            and v = "[(''PORT'', ''9000'')]"]
  show ?thesis
    by (simp add: example_env_fields)
qed

text \<open>
  C9, as stated, fails: the script prints four startup lines, not three. On the
  example run (started, then interrupted) standard output holds six lines: the port,
  the content root, the URL, the hint \<open>Press Ctrl+C to stop the server\<close>, then an empty
  line and \<open>Server stopped.\<close>
\<close>

theorem stdout_lines_counterexample:
  "splitlines (stdout (main example_env)) =
     [''Starting FASM eBook server on port 8000'',
      ''Serving from: /srv/ebook'',
      ''Open your browser to: http://localhost:8000'',
      ''Press Ctrl+C to stop the server'',
      '''',
      ''Server stopped.''] \<and>
   length (splitlines (stdout (main example_env))) = 6"
  by (simp add: main_example_env stdout_def printed_def LF_def)

text \<open>
  C9, amended. On a normal run (the directory is entered, the server is bound, and
  the user interrupts it) the script makes exactly five \<open>print\<close> calls: four startup
  lines (the port, the content root, the URL and the hint
  \<open>Press Ctrl+C to stop the server\<close>) and, at shutdown, an empty line followed by
  \<open>Server stopped.\<close> Nothing else is written to standard output.
\<close>

theorem stdout_of_interrupted_run:
  assumes "chdir E (ebook_dir E) = None"
    and "tcp_server E ('''', PORT) = None"
    and "serve_forever E = Raises KeyboardInterrupt"
  shows "printed (main E) =
           [''Starting FASM eBook server on port 8000'',
            ''Serving from: '' @ ebook_dir E,
            ''Open your browser to: http://localhost:8000'',
            ''Press Ctrl+C to stop the server'',
            LF # ''Server stopped.''] \<and>
         stdout (main E) =
           ''Starting FASM eBook server on port 8000'' @ [LF] @
           ''Serving from: '' @ ebook_dir E @ [LF] @
           ''Open your browser to: http://localhost:8000'' @ [LF] @
           ''Press Ctrl+C to stop the server'' @ [LF] @
           [LF] @
           ''Server stopped.'' @ [LF]"
  using main_interrupted [OF assms] by (simp add: stdout_def printed_def str_int_PORT)

theorem stdout_of_interrupted_run_witness:
  "chdir example_env (ebook_dir example_env) = None \<and>
   tcp_server example_env ('''', PORT) = None \<and>
   serve_forever example_env = Raises KeyboardInterrupt \<and>
   printed (main example_env) =
     [''Starting FASM eBook server on port 8000'',
      ''Serving from: /srv/ebook'',
      ''Open your browser to: http://localhost:8000'',
      ''Press Ctrl+C to stop the server'',
      LF # ''Server stopped.'']"
proof -
  have h: "chdir example_env (ebook_dir example_env) = None"
    "tcp_server example_env ('''', PORT) = None"
    "serve_forever example_env = Raises KeyboardInterrupt"
    by (simp_all add: example_env_fields)
  from h stdout_of_interrupted_run [OF h] show ?thesis
    by (simp add: example_env_fields)
qed

end
